theory Spec2Isabelle
  imports Complex_Main
begin

section \<open>StatusBadge: the variant derived from a status string\<close>

text \<open>
  Source: \<^verbatim>\<open>src/components/ui/status-badge.tsx\<close>.  The prop \<^verbatim>\<open>variant\<close> is the
  union \<^verbatim>\<open>'default' | 'active' | 'inactive' | 'pending' | 'success' | 'error' | 'warning'\<close>;
  it is optional, so the props carry an option.
\<close>

datatype variant = Default | Active | Inactive | Pending | Success | Error | Warning

datatype icon = CheckCircle | XCircle | AlertTriangle | Clock | CheckCircle2 | Truck | Package | Star

record StatusBadgeProps =
  status :: string
  variant :: "variant option"
  showIcon :: bool

text \<open>
  \<^verbatim>\<open>String.prototype.toLowerCase\<close> on the letters \<^verbatim>\<open>A\<close> to \<^verbatim>\<open>Z\<close> (codes 65 to 90);
  every other byte is left as it is.  The words the badge compares with are ASCII and
  contain no letter that a non-ASCII code point lowers to.
\<close>

definition toLowerCase_char :: "char \<Rightarrow> char" where
  "toLowerCase_char c =
     (let n = (of_char c :: nat) in if 65 \<le> n \<and> n \<le> 90 then char_of (n + 32) else c)"

definition toLowerCase :: "string \<Rightarrow> string" where
  "toLowerCase s = map toLowerCase_char s"

definition getVariantFromStatus :: "string \<Rightarrow> variant" where
  "getVariantFromStatus st =
     (let normalizedStatus = toLowerCase st in
      if normalizedStatus \<in> set [''activo'', ''active'', ''confirmado'', ''entregado'', ''success'']
        then Success
      else if normalizedStatus \<in> set [''inactivo'', ''inactive'', ''cancelado'', ''error'']
        then Error
      else if normalizedStatus \<in> set [''pendiente'', ''pending'', ''revision'', ''preparacion'']
        then Warning
      else Default)"

text \<open>\<^verbatim>\<open>variant || getVariantFromStatus(status)\<close>: every variant is a non-empty string,
  so only an absent prop falls through to the derived value.\<close>

definition finalVariant :: "StatusBadgeProps \<Rightarrow> variant" where
  "finalVariant props =
     (case variant props of Some v \<Rightarrow> v | None \<Rightarrow> getVariantFromStatus (status props))"

definition getIcon :: "StatusBadgeProps \<Rightarrow> icon option" where
  "getIcon props =
     (if \<not> showIcon props then None
      else case finalVariant props of
             Success \<Rightarrow> Some CheckCircle
           | Error \<Rightarrow> Some XCircle
           | Warning \<Rightarrow> Some AlertTriangle
           | Pending \<Rightarrow> Some Clock
           | _ \<Rightarrow> None)"

definition getClassName :: "StatusBadgeProps \<Rightarrow> string" where
  "getClassName props =
     (case finalVariant props of
        Success \<Rightarrow> ''bg-green-100 text-green-800 dark:bg-green-900 dark:text-green-200 border-green-200''
      | Error \<Rightarrow> ''bg-red-100 text-red-800 dark:bg-red-900 dark:text-red-200 border-red-200''
      | Warning \<Rightarrow> ''bg-yellow-100 text-yellow-800 dark:bg-yellow-900 dark:text-yellow-200 border-yellow-200''
      | Pending \<Rightarrow> ''bg-blue-100 text-blue-800 dark:bg-blue-900 dark:text-blue-200 border-blue-200''
      | _ \<Rightarrow> '''')"


section \<open>The relational backend: orders, order items and the status trigger\<close>

text \<open>
  Source: the migration \<^verbatim>\<open>20250809230122_...sql\<close> (and its later re-declarations with
  the same body).  A table is the list of its rows; a nullable column is an option, with
  \<open>None\<close> for SQL \<^verbatim>\<open>NULL\<close>.
\<close>

type_synonym timestamp = nat

record pedido =
  pedidos_id :: string
  pedidos_estado :: string
  pedidos_notas_operativas :: "string option"
  pedidos_items_confirmados :: "(string \<times> bool \<times> string option) list"
  pedidos_fecha_entrega_estimada :: "string option"
  pedidos_updated_at :: timestamp

record pedido_item =
  item_id :: string
  item_pedido_id :: "string option"
  item_estado :: "string option"
  item_notas_item :: "string option"
  item_fecha_confirmacion :: "timestamp option"

record producto =
  productos_id :: string
  productos_nombre :: string
  productos_precio :: real

record db =
  pedidos :: "pedido list"
  pedido_items :: "pedido_item list"
  productos :: "producto list"

text \<open>The two \<^verbatim>\<open>CHECK (estado IN (...))\<close> constraints.\<close>

definition pedidos_estado_workflow_check :: "string \<Rightarrow> bool" where
  "pedidos_estado_workflow_check estado =
     (estado \<in> set [''recibido'', ''revision'', ''confirmado_parcial'', ''preparacion'',
                     ''enviado'', ''entregado'', ''cancelado''])"

definition pedido_items_estado_check :: "string \<Rightarrow> bool" where
  "pedido_items_estado_check estado =
     (estado \<in> set [''pendiente'', ''confirmado'', ''no_confirmado'', ''sin_stock'',
                     ''preparando'', ''enviado''])"

text \<open>SQL \<^verbatim>\<open>a = b\<close> in a \<^verbatim>\<open>WHERE\<close> clause: a comparison with \<^verbatim>\<open>NULL\<close> selects no row.\<close>

definition sql_eq :: "'a option \<Rightarrow> 'a option \<Rightarrow> bool" where
  "sql_eq a b = (case a of None \<Rightarrow> False | Some x \<Rightarrow> (case b of None \<Rightarrow> False | Some y \<Rightarrow> x = y))"

text \<open>\<^verbatim>\<open>SELECT COUNT(*) FROM t WHERE cond\<close>.\<close>

definition select_count :: "('r \<Rightarrow> bool) \<Rightarrow> 'r list \<Rightarrow> nat" where
  "select_count cond t = length (filter cond t)"

text \<open>
  The trigger function: one \<^verbatim>\<open>UPDATE public.pedidos SET estado = CASE ... END,
  updated_at = NOW() WHERE id = NEW.pedido_id\<close>.
\<close>

definition update_order_status_from_items :: "timestamp \<Rightarrow> pedido_item \<Rightarrow> db \<Rightarrow> db" where
  "update_order_status_from_items now NEW d =
     d\<lparr>pedidos :=
         map (\<lambda>p.
           if sql_eq (Some (pedidos_id p)) (item_pedido_id NEW) then
             p\<lparr>pedidos_estado :=
                 (if select_count (\<lambda>i. sql_eq (item_pedido_id i) (item_pedido_id NEW)
                                      \<and> sql_eq (item_estado i) (Some ''confirmado''))
                       (pedido_items d)
                     = select_count (\<lambda>i. sql_eq (item_pedido_id i) (item_pedido_id NEW))
                         (pedido_items d)
                  then ''preparacion''
                  else if select_count (\<lambda>i. sql_eq (item_pedido_id i) (item_pedido_id NEW)
                                          \<and> (sql_eq (item_estado i) (Some ''confirmado'')
                                               \<or> sql_eq (item_estado i) (Some ''no_confirmado'')))
                            (pedido_items d) > 0
                  then ''confirmado_parcial''
                  else pedidos_estado p),
               pedidos_updated_at := now\<rparr>
           else p)
         (pedidos d)\<rparr>"

text \<open>
  The payload of \<^verbatim>\<open>supabase.from('pedido_items').update({estado, notas_item,
  fecha_confirmacion})\<close>.  A key whose value is \<^verbatim>\<open>undefined\<close> is left out of the request,
  so that column keeps its value; \<^verbatim>\<open>null\<close> is written as \<^verbatim>\<open>NULL\<close>.
\<close>

record item_update =
  upd_estado :: string
  upd_notas_item :: "string option"
  upd_fecha_confirmacion :: "timestamp option"

definition apply_item_update :: "item_update \<Rightarrow> pedido_item \<Rightarrow> pedido_item" where
  "apply_item_update u i =
     i\<lparr>item_estado := Some (upd_estado u),
       item_notas_item := (case upd_notas_item u of None \<Rightarrow> item_notas_item i | Some n \<Rightarrow> Some n),
       item_fecha_confirmacion := upd_fecha_confirmacion u\<rparr>"

text \<open>
  \<^verbatim>\<open>UPDATE pedido_items SET ... WHERE id = itemId\<close> with the row trigger
  \<^verbatim>\<open>AFTER UPDATE ... FOR EACH ROW WHEN (OLD.estado IS DISTINCT FROM NEW.estado)\<close>:
  the rows are rewritten first, then the trigger function runs once for each rewritten
  row whose status differs from its old one.
\<close>

definition update_order_status_trigger :: "timestamp \<Rightarrow> item_update \<Rightarrow> pedido_item \<Rightarrow> db \<Rightarrow> db" where
  "update_order_status_trigger now u OLD d =
     (if item_estado OLD \<noteq> item_estado (apply_item_update u OLD)
      then update_order_status_from_items now (apply_item_update u OLD) d
      else d)"

definition update_pedido_items :: "timestamp \<Rightarrow> string \<Rightarrow> item_update \<Rightarrow> db \<Rightarrow> db" where
  "update_pedido_items now itemId u d =
     fold (update_order_status_trigger now u)
       (filter (\<lambda>i. item_id i = itemId) (pedido_items d))
       (d\<lparr>pedido_items :=
            map (\<lambda>i. if item_id i = itemId then apply_item_update u i else i) (pedido_items d)\<rparr>)"

text \<open>The items of an order, and the two conditions of the recomputation in words.\<close>

definition items_of :: "string \<Rightarrow> db \<Rightarrow> pedido_item list" where
  "items_of pid d = filter (\<lambda>i. item_pedido_id i = Some pid) (pedido_items d)"

definition all_confirmado :: "string \<Rightarrow> db \<Rightarrow> bool" where
  "all_confirmado pid d = list_all (\<lambda>i. item_estado i = Some ''confirmado'') (items_of pid d)"

definition some_decided :: "string \<Rightarrow> db \<Rightarrow> bool" where
  "some_decided pid d =
     list_ex (\<lambda>i. item_estado i = Some ''confirmado'' \<or> item_estado i = Some ''no_confirmado'')
       (items_of pid d)"


section \<open>The hook useOrderOperations over the backend\<close>

text \<open>
  Source: \<^verbatim>\<open>useOrderOperations\<close> (hooks/useOrderOperations.ts).  Every request of the
  client resolves to a response \<^verbatim>\<open>{data, error}\<close>.  The world holds the database, the
  outcome the transport and the access policies will give each coming request
  (\<open>Some msg\<close>: that request is answered with the error \<open>msg\<close> and changes nothing), the
  draws of \<^verbatim>\<open>RANDOM()\<close>, the log of the requests sent, the notifications shown and the
  hook's \<^verbatim>\<open>loading\<close> flag.
\<close>

record pedido_update =
  set_estado :: "string option"
  set_notas_operativas :: "string option"
  set_items_confirmados :: "(string \<times> bool \<times> string option) list option"
  set_fecha_entrega_estimada :: "string option"

datatype request =
    UpdatePedidoItems string item_update
  | UpdatePedidos string pedido_update
  | RpcCheckStock "string list"

record stock_row =
  stock_producto_id :: string
  stock_disponible :: nat
  stock_nombre :: string
  stock_precio :: real

record toast_message =
  title :: string
  description :: string
  destructive :: bool

record world =
  database :: db
  outcomes :: "string option list"
  random_draws :: "nat list"
  sent :: "request list"
  toasts :: "toast_message list"
  loading :: bool

definition apply_pedido_update :: "pedido_update \<Rightarrow> pedido \<Rightarrow> pedido" where
  "apply_pedido_update u p =
     p\<lparr>pedidos_estado := (case set_estado u of None \<Rightarrow> pedidos_estado p | Some e \<Rightarrow> e),
       pedidos_notas_operativas :=
         (case set_notas_operativas u of None \<Rightarrow> pedidos_notas_operativas p | Some n \<Rightarrow> Some n),
       pedidos_items_confirmados :=
         (case set_items_confirmados u of None \<Rightarrow> pedidos_items_confirmados p | Some c \<Rightarrow> c),
       pedidos_fecha_entrega_estimada :=
         (case set_fecha_entrega_estimada u of None \<Rightarrow> pedidos_fecha_entrega_estimada p
          | Some f \<Rightarrow> Some f)\<rparr>"

definition update_pedidos :: "string \<Rightarrow> pedido_update \<Rightarrow> db \<Rightarrow> db" where
  "update_pedidos pedidoId u d =
     d\<lparr>pedidos := map (\<lambda>p. if pedidos_id p = pedidoId then apply_pedido_update u p else p) (pedidos d)\<rparr>"

text \<open>
  \<^verbatim>\<open>check_stock_availability(product_ids)\<close>: one row for each product whose id is among
  the ids, with \<^verbatim>\<open>(RANDOM() * 100)::INTEGER\<close> as its stock.
\<close>

fun check_stock_availability :: "string list \<Rightarrow> producto list \<Rightarrow> nat list \<Rightarrow> stock_row list \<times> nat list" where
  "check_stock_availability product_ids [] rs = ([], rs)"
| "check_stock_availability product_ids (p # ps) rs =
     (if productos_id p \<in> set product_ids then
        (case check_stock_availability product_ids ps (tl rs) of
           (rows, rs') \<Rightarrow>
             (\<lparr>stock_producto_id = productos_id p,
               stock_disponible = (case rs of [] \<Rightarrow> 0 | r # _ \<Rightarrow> r mod 101),
               stock_nombre = productos_nombre p,
               stock_precio = productos_precio p\<rparr> # rows, rs'))
      else check_stock_availability product_ids ps rs)"

text \<open>The next scripted outcome; a request beyond the script is let through.\<close>

definition next_outcome :: "world \<Rightarrow> string option" where
  "next_outcome w = (case outcomes w of [] \<Rightarrow> None | out # _ \<Rightarrow> out)"

definition request_sent :: "request \<Rightarrow> world \<Rightarrow> world" where
  "request_sent req w = w\<lparr>outcomes := tl (outcomes w), sent := sent w @ [req]\<rparr>"

text \<open>
  \<^verbatim>\<open>await supabase.from('pedido_items').update(u).eq('id', itemId)\<close>: refused by its
  scripted outcome, or by the check constraint when a row would get a status outside the
  constraint's list, or else carried out.  It yields the \<^verbatim>\<open>error\<close> field of the response.
\<close>

definition request_pedido_items_update ::
  "timestamp \<Rightarrow> string \<Rightarrow> item_update \<Rightarrow> world \<Rightarrow> string option \<times> world" where
  "request_pedido_items_update now itemId u w =
     (case next_outcome w of
        Some msg \<Rightarrow> (Some msg, request_sent (UpdatePedidoItems itemId u) w)
      | None \<Rightarrow>
          if list_ex (\<lambda>i. item_id i = itemId) (pedido_items (database w))
             \<and> \<not> pedido_items_estado_check (upd_estado u)
          then (Some ''violates check constraint pedido_items_estado_check'',
                request_sent (UpdatePedidoItems itemId u) w)
          else (None, (request_sent (UpdatePedidoItems itemId u) w)
                        \<lparr>database := update_pedido_items now itemId u (database w)\<rparr>))"

text \<open>\<^verbatim>\<open>await supabase.from('pedidos').update(u).eq('id', pedidoId)\<close>, in the same way.\<close>

definition request_pedidos_update ::
  "string \<Rightarrow> pedido_update \<Rightarrow> world \<Rightarrow> string option \<times> world" where
  "request_pedidos_update pedidoId u w =
     (case next_outcome w of
        Some msg \<Rightarrow> (Some msg, request_sent (UpdatePedidos pedidoId u) w)
      | None \<Rightarrow>
          if list_ex (\<lambda>p. pedidos_id p = pedidoId
                          \<and> \<not> pedidos_estado_workflow_check (pedidos_estado (apply_pedido_update u p)))
               (pedidos (database w))
          then (Some ''violates check constraint pedidos_estado_workflow_check'',
                request_sent (UpdatePedidos pedidoId u) w)
          else (None, (request_sent (UpdatePedidos pedidoId u) w)
                        \<lparr>database := update_pedidos pedidoId u (database w)\<rparr>))"

text \<open>\<^verbatim>\<open>await supabase.rpc('check_stock_availability', {product_ids})\<close>: yields
  \<^verbatim>\<open>data\<close> and \<^verbatim>\<open>error\<close>.\<close>

definition request_rpc_check_stock ::
  "string list \<Rightarrow> world \<Rightarrow> (stock_row list option \<times> string option) \<times> world" where
  "request_rpc_check_stock ids w =
     (case next_outcome w of
        Some msg \<Rightarrow> ((None, Some msg), request_sent (RpcCheckStock ids) w)
      | None \<Rightarrow>
         (case check_stock_availability ids (productos (database w)) (random_draws w) of
            (rows, rs') \<Rightarrow>
              ((Some rows, None), (request_sent (RpcCheckStock ids) w)\<lparr>random_draws := rs'\<rparr>)))"

definition setLoading :: "bool \<Rightarrow> world \<Rightarrow> world" where
  "setLoading b w = w\<lparr>loading := b\<rparr>"

definition toast :: "toast_message \<Rightarrow> world \<Rightarrow> world" where
  "toast t w = w\<lparr>toasts := toasts w @ [t]\<rparr>"

text \<open>
  \<^verbatim>\<open>try { body } catch (error) { handler } finally { finalizer }\<close>.  A computation yields
  \<open>Inl e\<close> when it throws \<open>e\<close> and \<open>Inr v\<close> when it returns \<open>v\<close>.
\<close>

definition try_catch_finally ::
  "(world \<Rightarrow> (string + 'a) \<times> world) \<Rightarrow> (string \<Rightarrow> world \<Rightarrow> (string + 'a) \<times> world)
     \<Rightarrow> (world \<Rightarrow> world) \<Rightarrow> world \<Rightarrow> (string + 'a) \<times> world" where
  "try_catch_finally body handler finalizer w =
     (case body w of
        (Inr v, w1) \<Rightarrow> (Inr v, finalizer w1)
      | (Inl e, w1) \<Rightarrow> (case handler e w1 of (r, w2) \<Rightarrow> (r, finalizer w2)))"

text \<open>The \<^verbatim>\<open>catch\<close> block shared by the four operations that return a boolean.\<close>

definition catch_error :: "string \<Rightarrow> world \<Rightarrow> (string + bool) \<times> world" where
  "catch_error e w = (Inr False, toast \<lparr>title = ''Error'', description = e, destructive = True\<rparr> w)"

text \<open>\<^verbatim>\<open>if (error) throw error;\<close>\<close>

definition throw_if_error :: "string option \<times> world \<Rightarrow> (string + unit) \<times> world" where
  "throw_if_error r = (case r of (Some e, w1) \<Rightarrow> (Inl e, w1) | (None, w1) \<Rightarrow> (Inr (), w1))"

subsection \<open>1. confirmPartialOrder\<close>

record selected_item =
  itemId :: string
  confirmed :: bool
  item_notes :: "string option"

definition confirm_payload :: "timestamp \<Rightarrow> selected_item \<Rightarrow> item_update" where
  "confirm_payload now s =
     \<lparr>upd_estado = (if confirmed s then ''confirmado'' else ''no_confirmado''),
      upd_notas_item = item_notes s,
      upd_fecha_confirmacion = (if confirmed s then Some now else None)\<rparr>"

text \<open>
  \<^verbatim>\<open>selectedItems.map(async ({itemId, confirmed, notes}) => ...)\<close>: every callback sends
  its request before any response is looked at, so every selected item gets its request
  whatever happens to the others.  The requests are taken to reach the database in the
  order of the list.  The result lists, for each promise, the error it rejects with.
\<close>

fun updatePromises :: "timestamp \<Rightarrow> selected_item list \<Rightarrow> world \<Rightarrow> string option list \<times> world" where
  "updatePromises now [] w = ([], w)"
| "updatePromises now (s # ss) w =
     (case request_pedido_items_update now (itemId s) (confirm_payload now s) w of
        (e, w1) \<Rightarrow> (case updatePromises now ss w1 of (es, w2) \<Rightarrow> (e # es, w2)))"

text \<open>\<^verbatim>\<open>await Promise.all(updatePromises)\<close>: throws the first rejection, if there is one.\<close>

fun Promise_all :: "string option list \<Rightarrow> string + unit" where
  "Promise_all [] = Inr ()"
| "Promise_all (None # es) = Promise_all es"
| "Promise_all (Some e # es) = Inl e"

text \<open>\<^verbatim>\<open>Object.fromEntries\<close>: a later entry with a key already present replaces its value.\<close>

fun object_set :: "'k \<Rightarrow> 'v \<Rightarrow> ('k \<times> 'v) list \<Rightarrow> ('k \<times> 'v) list" where
  "object_set k v [] = [(k, v)]"
| "object_set k v ((k', v') # rest) =
     (if k = k' then (k, v) # rest else (k', v') # object_set k v rest)"

definition fromEntries :: "('k \<times> 'v) list \<Rightarrow> ('k \<times> 'v) list" where
  "fromEntries entries = fold (\<lambda>(k, v) obj. object_set k v obj) entries []"

definition confirm_order_payload :: "selected_item list \<Rightarrow> string option \<Rightarrow> pedido_update" where
  "confirm_order_payload selectedItems operationalNotes =
     \<lparr>set_estado = None,
      set_notas_operativas = operationalNotes,
      set_items_confirmados =
        Some (fromEntries (map (\<lambda>s. (itemId s, (confirmed s, item_notes s))) selectedItems)),
      set_fecha_entrega_estimada = None\<rparr>"

definition confirmPartialOrder_body ::
  "timestamp \<Rightarrow> string \<Rightarrow> selected_item list \<Rightarrow> string option \<Rightarrow> world \<Rightarrow> (string + bool) \<times> world" where
  "confirmPartialOrder_body now pedidoId selectedItems operationalNotes w =
     (case updatePromises now selectedItems w of
        (es, w1) \<Rightarrow>
          (case Promise_all es of
             Inl e \<Rightarrow> (Inl e, w1)
           | Inr _ \<Rightarrow>
               (case throw_if_error
                       (request_pedidos_update pedidoId
                          (confirm_order_payload selectedItems operationalNotes) w1) of
                  (Inl e, w2) \<Rightarrow> (Inl e, w2)
                | (Inr _, w2) \<Rightarrow>
                    (Inr True,
                     toast \<lparr>title = ''Pedido confirmado parcialmente'',
                            description = ''Los items seleccionados han sido procesados'',
                            destructive = False\<rparr> w2))))"

definition confirmPartialOrder ::
  "timestamp \<Rightarrow> string \<Rightarrow> selected_item list \<Rightarrow> string option \<Rightarrow> world \<Rightarrow> (string + bool) \<times> world" where
  "confirmPartialOrder now pedidoId selectedItems operationalNotes w =
     try_catch_finally (confirmPartialOrder_body now pedidoId selectedItems operationalNotes)
       catch_error (setLoading False) (setLoading True w)"

subsection \<open>2. updateItemStatus\<close>

definition item_status_payload :: "timestamp \<Rightarrow> string \<Rightarrow> string option \<Rightarrow> item_update" where
  "item_status_payload now newStatus notes' =
     \<lparr>upd_estado = newStatus,
      upd_notas_item = notes',
      upd_fecha_confirmacion = (if newStatus = ''confirmado'' then Some now else None)\<rparr>"

definition updateItemStatus ::
  "timestamp \<Rightarrow> string \<Rightarrow> string \<Rightarrow> string option \<Rightarrow> world \<Rightarrow> (string + bool) \<times> world" where
  "updateItemStatus now itemId' newStatus notes' w =
     try_catch_finally
       (\<lambda>w0. case throw_if_error
                    (request_pedido_items_update now itemId'
                       (item_status_payload now newStatus notes') w0) of
                (Inl e, w1) \<Rightarrow> (Inl e, w1)
              | (Inr _, w1) \<Rightarrow>
                  (Inr True,
                   toast \<lparr>title = ''Estado actualizado'',
                          description = ''Item marcado como '' @ newStatus,
                          destructive = False\<rparr> w1))
       catch_error (setLoading False) (setLoading True w)"

subsection \<open>3. checkStockAvailability\<close>

definition checkStockAvailability ::
  "string list \<Rightarrow> world \<Rightarrow> (string + stock_row list) \<times> world" where
  "checkStockAvailability productIds w =
     try_catch_finally
       (\<lambda>w0. case request_rpc_check_stock productIds w0 of
                ((dat, Some e), w1) \<Rightarrow> (Inl e, w1)
              | ((dat, None), w1) \<Rightarrow> (Inr (case dat of None \<Rightarrow> [] | Some rows \<Rightarrow> rows), w1))
       (\<lambda>e w0. (Inr [],
                 toast \<lparr>title = ''Error verificando stock'', description = e,
                        destructive = True\<rparr> w0))
       (setLoading False) (setLoading True w)"

subsection \<open>4. scheduleDelivery\<close>

text \<open>The rendering of the date in the notification depends on the locale of the browser:
  it is a parameter.\<close>

definition delivery_payload :: "string \<Rightarrow> pedido_update" where
  "delivery_payload deliveryDate =
     \<lparr>set_estado = Some ''enviado'',
      set_notas_operativas = None,
      set_items_confirmados = None,
      set_fecha_entrega_estimada = Some deliveryDate\<rparr>"

definition scheduleDelivery ::
  "(string \<Rightarrow> string) \<Rightarrow> string \<Rightarrow> string \<Rightarrow> world \<Rightarrow> (string + bool) \<times> world" where
  "scheduleDelivery toLocaleDateString pedidoId deliveryDate w =
     try_catch_finally
       (\<lambda>w0. case throw_if_error
                    (request_pedidos_update pedidoId (delivery_payload deliveryDate) w0) of
                (Inl e, w1) \<Rightarrow> (Inl e, w1)
              | (Inr _, w1) \<Rightarrow>
                  (Inr True,
                   toast \<lparr>title = ''Entrega programada'',
                          description = ''Pedido programado para '' @ toLocaleDateString deliveryDate,
                          destructive = False\<rparr> w1))
       catch_error (setLoading False) (setLoading True w)"

subsection \<open>5. updateOrderStatus\<close>

definition order_status_payload :: "string \<Rightarrow> string option \<Rightarrow> pedido_update" where
  "order_status_payload newStatus notes' =
     \<lparr>set_estado = Some newStatus,
      set_notas_operativas = notes',
      set_items_confirmados = None,
      set_fecha_entrega_estimada = None\<rparr>"

definition updateOrderStatus ::
  "string \<Rightarrow> string \<Rightarrow> string option \<Rightarrow> world \<Rightarrow> (string + bool) \<times> world" where
  "updateOrderStatus pedidoId newStatus notes' w =
     try_catch_finally
       (\<lambda>w0. case throw_if_error
                    (request_pedidos_update pedidoId (order_status_payload newStatus notes') w0) of
                (Inl e, w1) \<Rightarrow> (Inl e, w1)
              | (Inr _, w1) \<Rightarrow>
                  (Inr True,
                   toast \<lparr>title = ''Estado actualizado'',
                          description = ''Pedido marcado como '' @ newStatus,
                          destructive = False\<rparr> w1))
       catch_error (setLoading False) (setLoading True w)"


section \<open>The order-status display tables\<close>

text \<open>
  Source: \<^verbatim>\<open>ORDER_STATUS_CONFIG\<close> (OperationalOrderManager.tsx) and \<^verbatim>\<open>ORDER_STATUSES\<close>
  (the order timeline).  An object literal is the list of its entries in the order they
  are written.  Letters outside ASCII are given by their UTF-8 bytes.
\<close>

record status_config =
  label :: string
  color :: string
  status_icon :: icon
  progress :: nat

definition ORDER_STATUS_CONFIG :: "(string \<times> status_config) list" where
  "ORDER_STATUS_CONFIG =
     [(''recibido'', \<lparr>label = ''Recibido'', color = ''bg-blue-500'', status_icon = Clock, progress = 10\<rparr>),
      (''revision'', \<lparr>label = ''En Revisi'' @ [CHR 0xC3, CHR 0xB3] @ ''n'', color = ''bg-yellow-500'',
                      status_icon = AlertTriangle, progress = 25\<rparr>),
      (''confirmado_parcial'', \<lparr>label = ''Confirmado Parcial'', color = ''bg-orange-500'',
                                status_icon = CheckCircle2, progress = 50\<rparr>),
      (''preparacion'', \<lparr>label = ''En Preparaci'' @ [CHR 0xC3, CHR 0xB3] @ ''n'', color = ''bg-purple-500'',
                         status_icon = Clock, progress = 75\<rparr>),
      (''enviado'', \<lparr>label = ''Enviado'', color = ''bg-green-500'', status_icon = Truck, progress = 90\<rparr>),
      (''entregado'', \<lparr>label = ''Entregado'', color = ''bg-green-600'', status_icon = CheckCircle2,
                       progress = 100\<rparr>),
      (''cancelado'', \<lparr>label = ''Cancelado'', color = ''bg-red-500'', status_icon = XCircle, progress = 0\<rparr>)]"

text \<open>\<^verbatim>\<open>ORDER_STATUS_CONFIG[order.estado]?.progress || 0\<close>\<close>

definition getOrderProgress :: "string \<Rightarrow> nat" where
  "getOrderProgress estado =
     (case map_of ORDER_STATUS_CONFIG estado of None \<Rightarrow> 0 | Some config \<Rightarrow> progress config)"

definition ORDER_STATUSES :: "(string \<times> status_config) list" where
  "ORDER_STATUSES =
     [(''pendiente'', \<lparr>label = ''Pendiente'',
                       color = ''bg-yellow-100 text-yellow-800 dark:bg-yellow-900 dark:text-yellow-200'',
                       status_icon = Clock, progress = 0\<rparr>),
      (''confirmado'', \<lparr>label = ''Confirmado'',
                        color = ''bg-blue-100 text-blue-800 dark:bg-blue-900 dark:text-blue-200'',
                        status_icon = CheckCircle, progress = 25\<rparr>),
      (''en_proceso'', \<lparr>label = ''En Proceso'',
                        color = ''bg-orange-100 text-orange-800 dark:bg-orange-900 dark:text-orange-200'',
                        status_icon = Package, progress = 50\<rparr>),
      (''enviado'', \<lparr>label = ''Enviado'',
                     color = ''bg-purple-100 text-purple-800 dark:bg-purple-900 dark:text-purple-200'',
                     status_icon = Truck, progress = 75\<rparr>),
      (''entregado'', \<lparr>label = ''Entregado'',
                       color = ''bg-green-100 text-green-800 dark:bg-green-900 dark:text-green-200'',
                       status_icon = Star, progress = 100\<rparr>),
      (''cancelado'', \<lparr>label = ''Cancelado'',
                       color = ''bg-red-100 text-red-800 dark:bg-red-900 dark:text-red-200'',
                       status_icon = Clock, progress = 0\<rparr>)]"


section \<open>The quote calculator\<close>

text \<open>
  Source: \<^verbatim>\<open>addProductToQuote\<close>, \<^verbatim>\<open>updateQuantity\<close>, \<^verbatim>\<open>updateDiscount\<close> and
  \<^verbatim>\<open>clearQuote\<close> (BusinessTools.tsx).  The state is the array \<^verbatim>\<open>quoteItems\<close>; each function
  is the state update it makes, applied to the latest state \<^verbatim>\<open>items\<close>.
  \<^verbatim>\<open>addProductToQuote\<close> chooses its update by searching \<^verbatim>\<open>quoteItems\<close>, the array of the
  render the handler belongs to, which is a second argument of its own.
  A quantity is an integer: the callers pass
  \<^verbatim>\<open>item.quantity - 1\<close>, \<^verbatim>\<open>item.quantity + 1\<close> or \<^verbatim>\<open>parseInt(e.target.value) || 0\<close>.
  A discount is a number, \<^verbatim>\<open>parseFloat(e.target.value) || 0\<close> at the caller.
\<close>

record Product =
  product_id :: string
  nombre :: string
  precio :: real
  sku :: string

record QuoteItem =
  product :: Product
  quantity :: int
  discount :: real

definition addProductToQuote :: "Product \<Rightarrow> QuoteItem list \<Rightarrow> QuoteItem list \<Rightarrow> QuoteItem list" where
  "addProductToQuote p quoteItems items =
     (case find (\<lambda>item. product_id (product item) = product_id p) quoteItems of
        Some existingItem \<Rightarrow>
          map (\<lambda>item. if product_id (product item) = product_id p
                       then item\<lparr>quantity := quantity item + 1\<rparr> else item) items
      | None \<Rightarrow> items @ [\<lparr>product = p, quantity = 1, discount = 0\<rparr>])"

definition updateQuantity :: "string \<Rightarrow> int \<Rightarrow> QuoteItem list \<Rightarrow> QuoteItem list" where
  "updateQuantity productId newQuantity quoteItems =
     (if newQuantity \<le> 0
      then filter (\<lambda>item. product_id (product item) \<noteq> productId) quoteItems
      else map (\<lambda>item. if product_id (product item) = productId
                        then item\<lparr>quantity := newQuantity\<rparr> else item) quoteItems)"

definition updateDiscount :: "string \<Rightarrow> real \<Rightarrow> QuoteItem list \<Rightarrow> QuoteItem list" where
  "updateDiscount productId d quoteItems =
     map (\<lambda>item. if product_id (product item) = productId
                  then item\<lparr>discount := max 0 (min 100 d)\<rparr> else item) quoteItems"

definition clearQuote :: "QuoteItem list \<Rightarrow> QuoteItem list" where
  "clearQuote quoteItems = []"

text \<open>
  The user's actions on the calculator, and the state they lead to from the empty quote.
  The component renders again after each action, so an action is handled by the handlers
  of the render of the current state: there \<^verbatim>\<open>quoteItems\<close> is the current state.
\<close>

datatype quote_action =
    AddProduct Product
  | UpdateQuantity string int
  | UpdateDiscount string real
  | ClearQuote

fun quote_step :: "QuoteItem list \<Rightarrow> quote_action \<Rightarrow> QuoteItem list" where
  "quote_step items (AddProduct p) = addProductToQuote p items items"
| "quote_step items (UpdateQuantity productId q) = updateQuantity productId q items"
| "quote_step items (UpdateDiscount productId d) = updateDiscount productId d items"
| "quote_step items ClearQuote = clearQuote items"

definition quote_after :: "quote_action list \<Rightarrow> QuoteItem list" where
  "quote_after actions = foldl quote_step [] actions"

definition quote_invariant :: "QuoteItem list \<Rightarrow> bool" where
  "quote_invariant quoteItems =
     (distinct (map (\<lambda>item. product_id (product item)) quoteItems)
      \<and> list_all (\<lambda>item. 1 \<le> quantity item \<and> 0 \<le> discount item \<and> discount item \<le> 100) quoteItems)"


section \<open>The report generator\<close>

text \<open>
  Source: \<^verbatim>\<open>processReportData\<close> (ReportGenerator.tsx), its \<^verbatim>\<open>summary\<close> and its
  \<^verbatim>\<open>topProducts\<close>; the per-client and per-month lists it also builds are not modelled.
  An amount is a real number: \<^verbatim>\<open>parseFloat\<close> of a numeric column.  A \<^verbatim>\<open>Map\<close> is the list of
  its entries in insertion order.
\<close>

record report_item =
  cantidad :: int
  precio_unitario :: real
  producto_nombre :: "string option"

record report_order =
  total :: real
  cliente_id :: string
  order_pedido_items :: "report_item list option"

record report_summary =
  totalSales :: real
  totalOrders :: nat
  totalClients :: nat
  avgOrderValue :: real

record product_stats =
  stats_sales :: real
  stats_quantity :: int

record top_product =
  name :: string
  sales :: real
  top_quantity :: int

record ReportData =
  summary :: report_summary
  topProducts :: "top_product list"

definition report_summary_of :: "report_order list \<Rightarrow> report_summary" where
  "report_summary_of orders =
     (let sales_sum = foldl (\<lambda>sum order. sum + total order) 0 orders;
          n = length orders
      in \<lparr>totalSales = sales_sum,
          totalOrders = n,
          totalClients = length (remdups (map cliente_id orders)),
          avgOrderValue = (if n > 0 then sales_sum / real n else 0)\<rparr>)"

text \<open>\<^verbatim>\<open>item.productos?.nombre || 'Producto desconocido'\<close>: an absent or empty name gives
  the default.\<close>

definition productName :: "report_item \<Rightarrow> string" where
  "productName item =
     (case producto_nombre item of
        None \<Rightarrow> ''Producto desconocido''
      | Some n \<Rightarrow> (if n = [] then ''Producto desconocido'' else n))"

text \<open>The body of the inner \<^verbatim>\<open>forEach\<close>: \<^verbatim>\<open>has\<close>, \<^verbatim>\<open>set\<close>, \<^verbatim>\<open>get\<close> and the two
  \<^verbatim>\<open>+=\<close> on the entry.\<close>

definition add_item :: "report_item \<Rightarrow> (string \<times> product_stats) list \<Rightarrow> (string \<times> product_stats) list" where
  "add_item item productStats =
     (let stats1 = (if map_of productStats (productName item) = None
                    then productStats @ [(productName item, \<lparr>stats_sales = 0, stats_quantity = 0\<rparr>)]
                    else productStats)
      in map (\<lambda>(k, current).
                if k = productName item
                then (k, \<lparr>stats_sales = stats_sales current + real_of_int (cantidad item) * precio_unitario item,
                          stats_quantity = stats_quantity current + cantidad item\<rparr>)
                else (k, current))
           stats1)"

definition items_of_order :: "report_order \<Rightarrow> report_item list" where
  "items_of_order order = (case order_pedido_items order of None \<Rightarrow> [] | Some its \<Rightarrow> its)"

definition productStats_of :: "report_order list \<Rightarrow> (string \<times> product_stats) list" where
  "productStats_of orders = fold (\<lambda>order stats. fold add_item (items_of_order order) stats) orders []"

definition product_entries :: "report_order list \<Rightarrow> top_product list" where
  "product_entries orders =
     map (\<lambda>(n, stats). \<lparr>name = n, sales = stats_sales stats, top_quantity = stats_quantity stats\<rparr>)
       (productStats_of orders)"

text \<open>\<^verbatim>\<open>.sort((a, b) => b.sales - a.sales).slice(0, 10)\<close>: a stable sort, larger sales first.\<close>

definition topProducts_of :: "report_order list \<Rightarrow> top_product list" where
  "topProducts_of orders = take 10 (sort_key (\<lambda>e. - sales e) (product_entries orders))"

definition processReportData :: "report_order list \<Rightarrow> ReportData" where
  "processReportData orders =
     \<lparr>summary = report_summary_of orders, topProducts = topProducts_of orders\<rparr>"


section \<open>The business dashboard\<close>

text \<open>
  Source: \<^verbatim>\<open>loadDashboardData\<close> (BusinessDashboard.tsx).  A row of the orders query is an
  order joined with its client.  A date is its calendar fields in one time zone; dates are
  compared field by field.
\<close>

record jsdate =
  year :: int
  month :: int
  day :: int
  ms_of_day :: nat

definition date_ge :: "jsdate \<Rightarrow> jsdate \<Rightarrow> bool" where
  "date_ge a b =
     (year a > year b \<or> (year a = year b \<and>
       (month a > month b \<or> (month a = month b \<and>
         (day a > day b \<or> (day a = day b \<and> ms_of_day a \<ge> ms_of_day b))))))"

text \<open>\<^verbatim>\<open>const inicioMes = new Date(); inicioMes.setDate(1);\<close>: the day becomes 1, the
  time of day stays.\<close>

definition inicioMes_of :: "jsdate \<Rightarrow> jsdate" where
  "inicioMes_of now = now\<lparr>day := 1\<rparr>"

record clientes_row =
  clientes_id :: string
  clientes_comercial_id :: string
  clientes_activo :: bool
  clientes_created_at :: timestamp

record pedidos_row =
  row_id :: string
  row_cliente_id :: string
  row_fecha_pedido :: jsdate
  row_total :: real
  row_created_at :: timestamp
  row_comercial_id :: string
  row_cliente_nombre :: "string option"

record DashboardStats =
  totalClientes :: nat
  pedidosMes :: nat
  ventasTotal :: real
  clienteMasActivo :: string

text \<open>\<^verbatim>\<open>.eq('comercial_id', user.id).eq('activo', true).order('created_at', {ascending: false})\<close>\<close>

definition fetch_clientes :: "string \<Rightarrow> clientes_row list \<Rightarrow> clientes_row list" where
  "fetch_clientes user_id table =
     sort_key (\<lambda>c. - int (clientes_created_at c))
       (filter (\<lambda>c. clientes_comercial_id c = user_id \<and> clientes_activo c) table)"

text \<open>\<^verbatim>\<open>.eq('clientes.comercial_id', user.id).order('created_at', {ascending: false}).limit(10)\<close>\<close>

definition fetch_pedidos :: "string \<Rightarrow> pedidos_row list \<Rightarrow> pedidos_row list" where
  "fetch_pedidos user_id table =
     take 10 (sort_key (\<lambda>p. - int (row_created_at p))
                (filter (\<lambda>p. row_comercial_id p = user_id) table))"

text \<open>\<^verbatim>\<open>clientePedidos[clienteNombre] = (clientePedidos[clienteNombre] || 0) + 1\<close>, for a
  name that is not empty.  The entries are kept in insertion order; that the engine lists
  keys that are canonical integers first is not modelled.\<close>

definition count_cliente :: "pedidos_row \<Rightarrow> (string \<times> nat) list \<Rightarrow> (string \<times> nat) list" where
  "count_cliente p clientePedidos =
     (case row_cliente_nombre p of
        None \<Rightarrow> clientePedidos
      | Some clienteNombre \<Rightarrow>
          if clienteNombre = [] then clientePedidos
          else object_set clienteNombre
                 ((case map_of clientePedidos clienteNombre of None \<Rightarrow> 0 | Some c \<Rightarrow> c) + 1)
                 clientePedidos)"

text \<open>\<^verbatim>\<open>Object.entries(clientePedidos).sort(([,a], [,b]) => b - a)[0]?.[0] || "Sin datos"\<close>\<close>

definition clienteMasActivo_of :: "pedidos_row list \<Rightarrow> string" where
  "clienteMasActivo_of pedidosData =
     (case sort_key (\<lambda>(n, c). - int c) (fold count_cliente pedidosData []) of
        [] \<Rightarrow> ''Sin datos''
      | (n, c) # rest \<Rightarrow> (if n = [] then ''Sin datos'' else n))"

text \<open>The statistics, from the responses of the two queries (\<open>None\<close>: the query gave no
  data).\<close>

definition calculate_stats ::
  "jsdate \<Rightarrow> clientes_row list option \<Rightarrow> pedidos_row list option \<Rightarrow> DashboardStats" where
  "calculate_stats now clientesData pedidosData =
     \<lparr>totalClientes = (case clientesData of None \<Rightarrow> 0 | Some cs \<Rightarrow> length cs),
      pedidosMes =
        (case pedidosData of None \<Rightarrow> 0
         | Some ps \<Rightarrow> length (filter (\<lambda>p. date_ge (row_fecha_pedido p) (inicioMes_of now)) ps)),
      ventasTotal =
        (case pedidosData of None \<Rightarrow> 0
         | Some ps \<Rightarrow> foldl (\<lambda>sum p. sum + row_total p) 0 ps),
      clienteMasActivo =
        (case pedidosData of None \<Rightarrow> ''Sin datos'' | Some ps \<Rightarrow> clienteMasActivo_of ps)\<rparr>"

definition loadDashboardData ::
  "jsdate \<Rightarrow> string \<Rightarrow> clientes_row list \<Rightarrow> pedidos_row list \<Rightarrow> DashboardStats" where
  "loadDashboardData now user_id clientes_table pedidos_table =
     calculate_stats now (Some (fetch_clientes user_id clientes_table))
       (Some (fetch_pedidos user_id pedidos_table))"


section \<open>Concrete data for the examples\<close>

definition example_db :: db where
  "example_db =
     \<lparr>pedidos = [\<lparr>pedidos_id = ''o1'', pedidos_estado = ''entregado'', pedidos_notas_operativas = None,
                  pedidos_items_confirmados = [], pedidos_fecha_entrega_estimada = None,
                  pedidos_updated_at = 0\<rparr>,
                 \<lparr>pedidos_id = ''o2'', pedidos_estado = ''cancelado'', pedidos_notas_operativas = None,
                  pedidos_items_confirmados = [], pedidos_fecha_entrega_estimada = None,
                  pedidos_updated_at = 0\<rparr>],
      pedido_items = [\<lparr>item_id = ''i1'', item_pedido_id = Some ''o1'', item_estado = Some ''confirmado'',
                       item_notas_item = None, item_fecha_confirmacion = None\<rparr>,
                      \<lparr>item_id = ''i2'', item_pedido_id = Some ''o1'', item_estado = Some ''pendiente'',
                       item_notas_item = None, item_fecha_confirmacion = None\<rparr>,
                      \<lparr>item_id = ''i3'', item_pedido_id = Some ''o2'', item_estado = Some ''confirmado'',
                       item_notas_item = None, item_fecha_confirmacion = None\<rparr>],
      productos = []\<rparr>"

definition example_item_i2 :: pedido_item where
  "example_item_i2 =
     \<lparr>item_id = ''i2'', item_pedido_id = Some ''o1'', item_estado = Some ''pendiente'',
      item_notas_item = None, item_fecha_confirmacion = None\<rparr>"

definition example_item_i3 :: pedido_item where
  "example_item_i3 =
     \<lparr>item_id = ''i3'', item_pedido_id = Some ''o2'', item_estado = Some ''confirmado'',
      item_notas_item = None, item_fecha_confirmacion = None\<rparr>"

definition example_confirm :: item_update where
  "example_confirm =
     \<lparr>upd_estado = ''confirmado'', upd_notas_item = None, upd_fecha_confirmacion = Some 7\<rparr>"


text \<open>A world in which the first request goes through and the second times out, and a
  selection of two items.\<close>

definition example_world :: world where
  "example_world =
     \<lparr>database = example_db, outcomes = [None, Some ''timeout''], random_draws = [],
      sent = [], toasts = [], loading = False\<rparr>"

definition example_selection :: "selected_item list" where
  "example_selection =
     [\<lparr>itemId = ''i2'', confirmed = True, item_notes = None\<rparr>,
      \<lparr>itemId = ''i3'', confirmed = False, item_notes = None\<rparr>]"

definition failing_world :: world where
  "failing_world =
     \<lparr>database = example_db, outcomes = [Some ''timeout''], random_draws = [],
      sent = [], toasts = [], loading = False\<rparr>"

definition example_product :: Product where
  "example_product = \<lparr>product_id = ''p1'', nombre = ''Caja'', precio = 18.5, sku = ''CJ-1''\<rparr>"

text \<open>A row of the quote as shown: product id, quantity, discount.\<close>

definition quote_row :: "QuoteItem \<Rightarrow> string \<times> int \<times> real" where
  "quote_row item = (product_id (product item), quantity item, discount item)"

definition example_product2 :: Product where
  "example_product2 = \<lparr>product_id = ''p2'', nombre = ''Bandeja'', precio = 8.25, sku = ''BD-2''\<rparr>"

definition example_product3 :: Product where
  "example_product3 = \<lparr>product_id = ''p3'', nombre = ''Tapa'', precio = 2, sku = ''TP-3''\<rparr>"

definition example_quote :: "QuoteItem list" where
  "example_quote =
     [\<lparr>product = example_product, quantity = 1, discount = 0\<rparr>,
      \<lparr>product = example_product2, quantity = 5, discount = 10\<rparr>]"


definition unit_item :: "string \<Rightarrow> real \<Rightarrow> report_item" where
  "unit_item n price = \<lparr>cantidad = 1, precio_unitario = price, producto_nombre = Some n\<rparr>"

text \<open>Three orders of two clients: eleven named products, one product ordered twice, one
  item without a product name, one order without items.\<close>

definition example_orders :: "report_order list" where
  "example_orders =
     [\<lparr>total = 66, cliente_id = ''c1'',
       order_pedido_items =
         Some [unit_item ''a'' 1, unit_item ''b'' 2, unit_item ''c'' 3, unit_item ''d'' 4,
               unit_item ''e'' 5, unit_item ''f'' 6, unit_item ''g'' 7, unit_item ''h'' 8,
               unit_item ''i'' 9, unit_item ''j'' 10, unit_item ''k'' 11]\<rparr>,
      \<lparr>total = 3, cliente_id = ''c2'',
       order_pedido_items =
         Some [\<lparr>cantidad = 2, precio_unitario = 1, producto_nombre = Some ''a''\<rparr>,
               \<lparr>cantidad = 1, precio_unitario = 1, producto_nombre = None\<rparr>]\<rparr>,
      \<lparr>total = 0, cliente_id = ''c1'', order_pedido_items = None\<rparr>]"


text \<open>Eleven orders of one client of the commercial user \<^verbatim>\<open>u1\<close>, each of total 1 and
  dated 1 August 2025 at 09:00, created at the times 1 to 11; and a clock at 15 August 2025,
  10:00.\<close>

definition example_pedido :: "nat \<Rightarrow> pedidos_row" where
  "example_pedido k =
     \<lparr>row_id = ''order'', row_cliente_id = ''c1'',
      row_fecha_pedido = \<lparr>year = 2025, month = 8, day = 1, ms_of_day = 32400000\<rparr>,
      row_total = 1, row_created_at = k, row_comercial_id = ''u1'',
      row_cliente_nombre = Some ''Bar Sol''\<rparr>"

definition example_pedidos :: "pedidos_row list" where
  "example_pedidos = map example_pedido [1, 2, 3, 4, 5, 6, 7, 8, 9, 10, 11]"

definition example_now :: jsdate where
  "example_now = \<lparr>year = 2025, month = 8, day = 15, ms_of_day = 36000000\<rparr>"


section \<open>Auxiliary notions for the proofs\<close>




text \<open>The shape shared by the three operations that await one update.\<close>

definition single_update_body ::
  "(world \<Rightarrow> string option \<times> world) \<Rightarrow> toast_message \<Rightarrow> world \<Rightarrow> (string + bool) \<times> world" where
  "single_update_body request ok w0 =
     (case throw_if_error (request w0) of
        (Inl e, w1) \<Rightarrow> (Inl e, w1)
      | (Inr _, w1) \<Rightarrow> (Inr True, toast ok w1))"


section \<open>Properties of StatusBadge\<close>

lemma toLowerCase_char_idem: "toLowerCase_char (toLowerCase_char c) = toLowerCase_char c"
  by (simp add: toLowerCase_char_def Let_def)

lemma toLowerCase_idem: "toLowerCase (toLowerCase s) = toLowerCase s"
  by (simp add: toLowerCase_def toLowerCase_char_idem)

lemma getVariantFromStatus_not_Pending: "getVariantFromStatus s \<noteq> Pending"
  by (simp add: getVariantFromStatus_def Let_def)

lemma finalVariant_Pending: "finalVariant props = Pending \<Longrightarrow> variant props = Some Pending"
  by (cases "variant props") (simp_all add: finalVariant_def getVariantFromStatus_not_Pending)

lemma getIcon_Clock: "getIcon props = Some Clock \<Longrightarrow> finalVariant props = Pending"
  by (cases "finalVariant props") (simp_all add: getIcon_def split: if_splits)

text \<open>
  Claim C10.  For every status string \<open>s\<close> the variant derived from \<open>s\<close> is the variant
  derived from the lowercase of \<open>s\<close>; the derived variant is never \<open>Pending\<close>: the
  statuses \<^verbatim>\<open>pendiente\<close> and \<^verbatim>\<open>pending\<close> derive \<open>Warning\<close>; and the badge shows the
  clock icon only when the caller passes the variant prop \<^verbatim>\<open>pending\<close> itself.
\<close>

theorem getVariantFromStatus_case_invariant_never_pending:
  "getVariantFromStatus s = getVariantFromStatus (toLowerCase s)
   \<and> getVariantFromStatus s \<noteq> Pending
   \<and> getVariantFromStatus ''pendiente'' = Warning
   \<and> getVariantFromStatus ''pending'' = Warning
   \<and> (getIcon props = Some Clock \<longrightarrow> variant props = Some Pending)"
proof -
  have inv: "getVariantFromStatus s = getVariantFromStatus (toLowerCase s)"
    by (simp add: getVariantFromStatus_def toLowerCase_idem)
  have w1: "getVariantFromStatus ''pendiente'' = Warning"
    by code_simp
  have w2: "getVariantFromStatus ''pending'' = Warning"
    by code_simp
  have clock: "getIcon props = Some Clock \<longrightarrow> variant props = Some Pending"
    using getIcon_Clock finalVariant_Pending by blast
  from inv getVariantFromStatus_not_Pending w1 w2 clock show ?thesis
    by blast
qed

theorem getVariantFromStatus_case_invariant_never_pending_witness:
  "getVariantFromStatus ''PENDIENTE'' = Warning
   \<and> getIcon \<lparr>status = ''PENDIENTE'', variant = Some Pending, showIcon = True\<rparr> = Some Clock
   \<and> variant \<lparr>status = ''PENDIENTE'', variant = Some Pending, showIcon = True\<rparr> = Some Pending
   \<and> getIcon \<lparr>status = ''PENDIENTE'', variant = None, showIcon = True\<rparr> = Some AlertTriangle"
proof -
  have lower: "toLowerCase ''PENDIENTE'' = ''pendiente''"
    by code_simp
  have icon1: "getIcon \<lparr>status = ''PENDIENTE'', variant = Some Pending, showIcon = True\<rparr> = Some Clock"
    by (simp add: getIcon_def finalVariant_def)
  have icon2: "getIcon \<lparr>status = ''PENDIENTE'', variant = None, showIcon = True\<rparr> = Some AlertTriangle"
    by (simp add: getIcon_def finalVariant_def getVariantFromStatus_def lower)
  from getVariantFromStatus_case_invariant_never_pending
         [of "''PENDIENTE''" "\<lparr>status = ''PENDIENTE'', variant = Some Pending, showIcon = True\<rparr>"]
       lower icon1 icon2
  show ?thesis by simp
qed


section \<open>Properties of the status trigger\<close>

lemma sql_eq_Some: "sql_eq a (Some y) = (a = Some y)" "sql_eq (Some x) b = (b = Some x)"
  by (auto simp: sql_eq_def split: option.splits)

text \<open>The two count comparisons of the \<^verbatim>\<open>CASE\<close>, read as "every row" and "some row".\<close>

lemma select_count_all_iff:
  "(select_count (\<lambda>i. P i \<and> Q i) t = select_count P t) = list_all Q (filter P t)"
  unfolding select_count_def
proof (induction t)
  case Nil
  show ?case by simp
next
  case (Cons a t)
  have le: "length (filter (\<lambda>i. P i \<and> Q i) t) \<le> length (filter P t)"
    by (induction t) auto
  with Cons show ?case by auto
qed

lemma select_count_pos_iff:
  "(select_count (\<lambda>i. P i \<and> Q i) t > 0) = list_ex Q (filter P t)"
  unfolding select_count_def by (induction t) auto

lemma update_order_status_from_items_Some:
  "item_pedido_id NEW = Some pid \<Longrightarrow>
   update_order_status_from_items now NEW d =
     d\<lparr>pedidos :=
         map (\<lambda>p. if pedidos_id p = pid
                  then p\<lparr>pedidos_estado :=
                          (if all_confirmado pid d then ''preparacion''
                           else if some_decided pid d then ''confirmado_parcial''
                           else pedidos_estado p),
                        pedidos_updated_at := now\<rparr>
                  else p)
           (pedidos d)\<rparr>"
  by (auto simp add: update_order_status_from_items_def all_confirmado_def some_decided_def
        items_of_def select_count_all_iff select_count_pos_iff sql_eq_Some)

lemma update_order_status_from_items_None:
  "item_pedido_id NEW = None \<Longrightarrow> update_order_status_from_items now NEW d = d"
  by (simp add: update_order_status_from_items_def sql_eq_def map_idI)

lemma filter_key_distinct:
  "distinct (map f xs) \<Longrightarrow> x \<in> set xs \<Longrightarrow> filter (\<lambda>y. f y = f x) xs = [x]"
proof (induction xs)
  case Nil
  then show ?case by simp
next
  case (Cons a xs)
  show ?case
  proof (cases "a = x")
    case True
    with Cons.prems have "filter (\<lambda>y. f y = f x) xs = []"
      by (auto simp: filter_empty_conv image_iff)
    with True show ?thesis by simp
  next
    case False
    with Cons.prems have "x \<in> set xs" "f a \<noteq> f x"
      by (auto simp: image_iff)
    with Cons show ?thesis by simp
  qed
qed

lemma list_all2_map_same: "(\<And>x. x \<in> set xs \<Longrightarrow> R x (f x)) \<Longrightarrow> list_all2 R xs (map f xs)"
  by (induction xs) auto

text \<open>
  Claim C1.  An update of the item with primary key \<open>iid\<close> that changes its status
  fires the trigger, and afterwards the status of the parent order is \<^verbatim>\<open>preparacion\<close>
  when every item of the order has the status \<^verbatim>\<open>confirmado\<close>; otherwise
  \<^verbatim>\<open>confirmado_parcial\<close> when some item of the order has the status \<^verbatim>\<open>confirmado\<close> or
  \<^verbatim>\<open>no_confirmado\<close>; otherwise what it was.  The items are those after the update; no
  other order changes.
\<close>

theorem update_pedido_items_recomputes_parent:
  assumes "distinct (map item_id (pedido_items d))"
      and "OLD \<in> set (pedido_items d)"
      and "item_id OLD = iid"
      and "item_estado OLD \<noteq> Some (upd_estado u)"
      and "item_pedido_id OLD = Some pid"
      and "d' = update_pedido_items now iid u d"
  shows "pedidos d' =
           map (\<lambda>p. if pedidos_id p = pid
                    then p\<lparr>pedidos_estado :=
                            (if all_confirmado pid d' then ''preparacion''
                             else if some_decided pid d' then ''confirmado_parcial''
                             else pedidos_estado p),
                          pedidos_updated_at := now\<rparr>
                    else p)
             (pedidos d)"
proof -
  let ?d1 = "d\<lparr>pedido_items :=
                 map (\<lambda>i. if item_id i = iid then apply_item_update u i else i) (pedido_items d)\<rparr>"
  let ?NEW = "apply_item_update u OLD"
  have f: "filter (\<lambda>i. item_id i = iid) (pedido_items d) = [OLD]"
    using filter_key_distinct[OF assms(1,2)] assms(3) by simp
  have pid: "item_pedido_id ?NEW = Some pid"
    using assms(5) by (simp add: apply_item_update_def)
  have ch: "item_estado OLD \<noteq> item_estado ?NEW"
    using assms(4) by (simp add: apply_item_update_def)
  have d': "d' = update_order_status_from_items now ?NEW ?d1"
    using assms(6) f ch by (simp add: update_pedido_items_def update_order_status_trigger_def)
  have it: "pedido_items d' = pedido_items ?d1"
    unfolding d' by (simp add: update_order_status_from_items_def)
  have a: "all_confirmado pid d' = all_confirmado pid ?d1"
    and s: "some_decided pid d' = some_decided pid ?d1"
    using it by (simp_all add: all_confirmado_def some_decided_def items_of_def)
  show ?thesis
    unfolding a s unfolding d' update_order_status_from_items_Some[OF pid] by simp
qed

text \<open>The last pending item of the delivered order \<^verbatim>\<open>o1\<close> is confirmed at time 7.\<close>

theorem update_pedido_items_recomputes_parent_witness:
  "distinct (map item_id (pedido_items example_db))
   \<and> example_item_i2 \<in> set (pedido_items example_db)
   \<and> all_confirmado ''o1'' (update_pedido_items 7 ''i2'' example_confirm example_db)
   \<and> map pedidos_estado (pedidos (update_pedido_items 7 ''i2'' example_confirm example_db))
       = [''preparacion'', ''cancelado'']
   \<and> map pedidos_updated_at (pedidos (update_pedido_items 7 ''i2'' example_confirm example_db))
       = [7, 0]"
proof -
  have h1: "distinct (map item_id (pedido_items example_db))"
    by (simp add: example_db_def)
  have h2: "example_item_i2 \<in> set (pedido_items example_db)"
    by (simp add: example_db_def example_item_i2_def)
  have h3: "item_id example_item_i2 = ''i2''"
    by (simp add: example_item_i2_def)
  have h4: "item_estado example_item_i2 \<noteq> Some (upd_estado example_confirm)"
    by (simp add: example_item_i2_def example_confirm_def)
  have h5: "item_pedido_id example_item_i2 = Some ''o1''"
    by (simp add: example_item_i2_def)
  have items: "pedido_items (update_pedido_items 7 ''i2'' example_confirm example_db) =
      map (\<lambda>i. if item_id i = ''i2'' then apply_item_update example_confirm i else i)
        (pedido_items example_db)"
    by (simp add: example_db_def update_pedido_items_def update_order_status_trigger_def
          update_order_status_from_items_def)
  have ac: "all_confirmado ''o1'' (update_pedido_items 7 ''i2'' example_confirm example_db)"
    unfolding all_confirmado_def items_of_def items
    by (simp add: example_db_def apply_item_update_def example_confirm_def)
  from update_pedido_items_recomputes_parent[OF h1 h2 h3 h4 h5 refl, of 7] ac
  have "pedidos (update_pedido_items 7 ''i2'' example_confirm example_db) =
          map (\<lambda>p. if pedidos_id p = ''o1''
                   then p\<lparr>pedidos_estado := ''preparacion'', pedidos_updated_at := 7\<rparr> else p)
            (pedidos example_db)"
    by simp
  then have "map pedidos_estado (pedidos (update_pedido_items 7 ''i2'' example_confirm example_db))
               = [''preparacion'', ''cancelado'']"
    and "map pedidos_updated_at (pedidos (update_pedido_items 7 ''i2'' example_confirm example_db))
               = [7, 0]"
    by (simp_all add: example_db_def)
  with h1 h2 ac show ?thesis by (intro conjI)
qed

text \<open>
  Claim C9.  The trigger function changes no order's identity and gives every order one
  of \<^verbatim>\<open>preparacion\<close>, \<^verbatim>\<open>confirmado_parcial\<close> or the status it had; and when every item of
  the order of \<open>NEW\<close> has the status \<^verbatim>\<open>confirmado\<close>, that order gets \<^verbatim>\<open>preparacion\<close>
  whatever its status was, \<^verbatim>\<open>entregado\<close> and \<^verbatim>\<open>cancelado\<close> included.
\<close>

theorem update_order_status_from_items_assigns_only:
  "list_all2 (\<lambda>p p'. pedidos_id p' = pedidos_id p
                 \<and> (pedidos_estado p' = ''preparacion'' \<or> pedidos_estado p' = ''confirmado_parcial''
                      \<or> pedidos_estado p' = pedidos_estado p))
     (pedidos d) (pedidos (update_order_status_from_items now NEW d))
   \<and> (item_pedido_id NEW = Some pid \<and> all_confirmado pid d \<longrightarrow>
        pedidos (update_order_status_from_items now NEW d) =
          map (\<lambda>p. if pedidos_id p = pid
                   then p\<lparr>pedidos_estado := ''preparacion'', pedidos_updated_at := now\<rparr> else p)
            (pedidos d))"
proof -
  have a: "list_all2 (\<lambda>p p'. pedidos_id p' = pedidos_id p
                 \<and> (pedidos_estado p' = ''preparacion'' \<or> pedidos_estado p' = ''confirmado_parcial''
                      \<or> pedidos_estado p' = pedidos_estado p))
     (pedidos d) (pedidos (update_order_status_from_items now NEW d))"
    unfolding update_order_status_from_items_def
    by (simp, rule list_all2_map_same) simp
  have b: "item_pedido_id NEW = Some pid \<and> all_confirmado pid d \<longrightarrow>
        pedidos (update_order_status_from_items now NEW d) =
          map (\<lambda>p. if pedidos_id p = pid
                   then p\<lparr>pedidos_estado := ''preparacion'', pedidos_updated_at := now\<rparr> else p)
            (pedidos d)"
    by (simp add: update_order_status_from_items_Some)
  from a b show ?thesis by (intro conjI)
qed

text \<open>The cancelled order \<^verbatim>\<open>o2\<close>, whose only item is confirmed, goes to \<^verbatim>\<open>preparacion\<close>.\<close>

theorem update_order_status_from_items_assigns_only_witness:
  "item_pedido_id example_item_i3 = Some ''o2''
   \<and> all_confirmado ''o2'' example_db
   \<and> map pedidos_estado (pedidos example_db) = [''entregado'', ''cancelado'']
   \<and> map pedidos_estado (pedidos (update_order_status_from_items 9 example_item_i3 example_db))
       = [''entregado'', ''preparacion'']"
proof -
  have h1: "item_pedido_id example_item_i3 = Some ''o2''"
    by (simp add: example_item_i3_def)
  have h2: "all_confirmado ''o2'' example_db"
    by (simp add: all_confirmado_def items_of_def example_db_def)
  have before: "map pedidos_estado (pedidos example_db) = [''entregado'', ''cancelado'']"
    by (simp add: example_db_def)
  from update_order_status_from_items_assigns_only[of example_db 9 example_item_i3 "''o2''"] h1 h2
  have "pedidos (update_order_status_from_items 9 example_item_i3 example_db) =
          map (\<lambda>p. if pedidos_id p = ''o2''
                   then p\<lparr>pedidos_estado := ''preparacion'', pedidos_updated_at := 9\<rparr> else p)
            (pedidos example_db)"
    by blast
  then have "map pedidos_estado (pedidos (update_order_status_from_items 9 example_item_i3 example_db))
       = [''entregado'', ''preparacion'']"
    by (simp add: example_db_def)
  with h1 h2 before show ?thesis by (intro conjI)
qed


section \<open>Properties of the order-status display tables\<close>

text \<open>
  Claim C2.  \<^verbatim>\<open>ORDER_STATUS_CONFIG\<close> has exactly seven entries with distinct keys, each
  with a label, a colour and a progress percentage, and its keys are exactly the statuses
  that the check constraint \<^verbatim>\<open>pedidos_estado_workflow_check\<close> permits.
\<close>

theorem ORDER_STATUS_CONFIG_matches_check:
  "length ORDER_STATUS_CONFIG = 7
   \<and> distinct (map fst ORDER_STATUS_CONFIG)
   \<and> set (map fst ORDER_STATUS_CONFIG) = {estado. pedidos_estado_workflow_check estado}
   \<and> map (\<lambda>(k, c). (k, progress c)) ORDER_STATUS_CONFIG =
       [(''recibido'', 10), (''revision'', 25), (''confirmado_parcial'', 50), (''preparacion'', 75),
        (''enviado'', 90), (''entregado'', 100), (''cancelado'', 0)]"
proof -
  have keys: "map fst ORDER_STATUS_CONFIG =
      [''recibido'', ''revision'', ''confirmado_parcial'', ''preparacion'', ''enviado'',
       ''entregado'', ''cancelado'']"
    by (simp add: ORDER_STATUS_CONFIG_def)
  have len: "length ORDER_STATUS_CONFIG = 7"
    by (simp add: ORDER_STATUS_CONFIG_def)
  have dist: "distinct (map fst ORDER_STATUS_CONFIG)"
    unfolding keys by simp
  have eq: "set (map fst ORDER_STATUS_CONFIG) = {estado. pedidos_estado_workflow_check estado}"
    unfolding keys pedidos_estado_workflow_check_def by auto
  have prog: "map (\<lambda>(k, c). (k, progress c)) ORDER_STATUS_CONFIG =
       [(''recibido'', 10), (''revision'', 25), (''confirmado_parcial'', 50), (''preparacion'', 75),
        (''enviado'', 90), (''entregado'', 100), (''cancelado'', 0)]"
    by (simp add: ORDER_STATUS_CONFIG_def)
  from len dist eq prog show ?thesis by (intro conjI)
qed

text \<open>The table of the order timeline is another one: six entries, three of them
  (\<^verbatim>\<open>pendiente\<close>, \<^verbatim>\<open>confirmado\<close>, \<^verbatim>\<open>en_proceso\<close>) outside the constraint.\<close>

lemma ORDER_STATUSES_differs:
  "length ORDER_STATUSES = 6
   \<and> filter (\<lambda>k. \<not> pedidos_estado_workflow_check k) (map fst ORDER_STATUSES)
       = [''pendiente'', ''confirmado'', ''en_proceso'']"
  by (simp add: ORDER_STATUSES_def pedidos_estado_workflow_check_def)


section \<open>Properties of the quote calculator\<close>

lemma map_key_update:
  assumes "\<And>x. f (g x) = f x"
  shows "map f (map (\<lambda>x. if P x then g x else x) xs) = map f xs"
  by (induction xs) (simp_all add: assms)

lemma list_all_update:
  assumes "list_all Q xs" and "\<And>x. Q x \<Longrightarrow> P x \<Longrightarrow> Q (g x)"
  shows "list_all Q (map (\<lambda>x. if P x then g x else x) xs)"
  using assms(1) by (induction xs) (simp_all add: assms(2))

lemma quote_invariant_update:
  assumes inv: "quote_invariant items"
    and key: "\<And>x. product_id (product (g x)) = product_id (product x)"
    and ok: "\<And>x. 1 \<le> quantity x \<and> 0 \<le> discount x \<and> discount x \<le> 100 \<Longrightarrow> P x \<Longrightarrow>
                 1 \<le> quantity (g x) \<and> 0 \<le> discount (g x) \<and> discount (g x) \<le> 100"
  shows "quote_invariant (map (\<lambda>x. if P x then g x else x) items)"
proof -
  have k: "map (\<lambda>item. product_id (product item)) (map (\<lambda>x. if P x then g x else x) items)
           = map (\<lambda>item. product_id (product item)) items"
    by (rule map_key_update) (rule key)
  have a: "list_all (\<lambda>item. 1 \<le> quantity item \<and> 0 \<le> discount item \<and> discount item \<le> 100)
             (map (\<lambda>x. if P x then g x else x) items)"
    by (rule list_all_update) (use inv ok in \<open>simp_all add: quote_invariant_def\<close>)
  from inv have "distinct (map (\<lambda>item. product_id (product item)) items)"
    by (simp add: quote_invariant_def)
  with k a show ?thesis
    unfolding quote_invariant_def by (simp only: simp_thms)
qed

lemma find_product_None:
  "(find (\<lambda>item. product_id (product item) = k) xs = None)
     = (k \<notin> set (map (\<lambda>item. product_id (product item)) xs))"
  by (auto simp: find_None_iff)

lemma addProductToQuote_present:
  assumes "product_id p \<in> set (map (\<lambda>item. product_id (product item)) rendered)"
  shows "addProductToQuote p rendered items =
           map (\<lambda>item. if product_id (product item) = product_id p
                        then item\<lparr>quantity := quantity item + 1\<rparr> else item) items"
proof -
  from assms have "find (\<lambda>item. product_id (product item) = product_id p) rendered \<noteq> None"
    by (simp add: find_product_None)
  then obtain e where "find (\<lambda>item. product_id (product item) = product_id p) rendered = Some e"
    by blast
  then show ?thesis by (simp add: addProductToQuote_def)
qed

lemma addProductToQuote_absent:
  assumes "product_id p \<notin> set (map (\<lambda>item. product_id (product item)) rendered)"
  shows "addProductToQuote p rendered items = items @ [\<lparr>product = p, quantity = 1, discount = 0\<rparr>]"
proof -
  from assms have "find (\<lambda>item. product_id (product item) = product_id p) rendered = None"
    by (simp add: find_product_None)
  then show ?thesis by (simp add: addProductToQuote_def)
qed

lemma addProductToQuote_inv:
  assumes inv: "quote_invariant items"
    and agree: "(product_id p \<in> set (map (\<lambda>item. product_id (product item)) rendered))
                 = (product_id p \<in> set (map (\<lambda>item. product_id (product item)) items))"
  shows "quote_invariant (addProductToQuote p rendered items)"
proof (cases "product_id p \<in> set (map (\<lambda>item. product_id (product item)) rendered)")
  case True
  have "quote_invariant (map (\<lambda>item. if product_id (product item) = product_id p
                       then item\<lparr>quantity := quantity item + 1\<rparr> else item) items)"
    by (rule quote_invariant_update[OF inv]) simp_all
  then show ?thesis
    unfolding addProductToQuote_present[OF True] .
next
  case False
  with agree have "product_id p \<notin> set (map (\<lambda>item. product_id (product item)) items)"
    by simp
  with inv have "quote_invariant (items @ [\<lparr>product = p, quantity = 1, discount = 0\<rparr>])"
    by (simp add: quote_invariant_def)
  then show ?thesis
    unfolding addProductToQuote_absent[OF False] .
qed

lemma updateQuantity_inv:
  assumes inv: "quote_invariant items"
  shows "quote_invariant (updateQuantity k q items)"
proof (cases "q \<le> 0")
  case True
  from inv have "distinct (map (\<lambda>item. product_id (product item))
                    (filter (\<lambda>item. product_id (product item) \<noteq> k) items))"
    by (simp add: quote_invariant_def distinct_map_filter)
  moreover from inv
  have "list_all (\<lambda>item. 1 \<le> quantity item \<and> 0 \<le> discount item \<and> discount item \<le> 100)
          (filter (\<lambda>item. product_id (product item) \<noteq> k) items)"
    by (simp add: quote_invariant_def list_all_iff)
  ultimately show ?thesis using True
    by (simp add: quote_invariant_def updateQuantity_def)
next
  case False
  have "quote_invariant (map (\<lambda>item. if product_id (product item) = k
                       then item\<lparr>quantity := q\<rparr> else item) items)"
    by (rule quote_invariant_update[OF inv]) (use False in simp_all)
  with False show ?thesis
    by (simp add: updateQuantity_def)
qed

lemma updateDiscount_inv:
  assumes inv: "quote_invariant items"
  shows "quote_invariant (updateDiscount k d items)"
  unfolding updateDiscount_def
  by (rule quote_invariant_update[OF inv]) simp_all

lemma quote_step_inv: "quote_invariant items \<Longrightarrow> quote_invariant (quote_step items a)"
proof (cases a)
  case ClearQuote
  then show ?thesis by (simp add: clearQuote_def quote_invariant_def)
qed (simp_all add: addProductToQuote_inv updateQuantity_inv updateDiscount_inv)

lemma foldl_quote_inv: "quote_invariant items \<Longrightarrow> quote_invariant (foldl quote_step items as)"
  by (induction as arbitrary: items) (simp_all add: quote_step_inv)

lemma clamp_cases: "max 0 (min 100 d) = (if d < 0 then 0 else if 100 < d then 100 else (d::real))"
  by simp

lemma filter_absent_key: "k \<notin> set (map f xs) \<Longrightarrow> filter (\<lambda>x. f x \<noteq> k) xs = xs"
  by (induction xs) auto

text \<open>
  Claim C8.  The quote keeps its invariant (no product id in two items, every quantity
  at least 1, every discount between 0 and 100) in every state reached from the empty
  quote by the user's actions, and each operation preserves it; for \<^verbatim>\<open>addProductToQuote\<close>
  this is under the hypothesis that the render whose \<^verbatim>\<open>quoteItems\<close> it searches agrees with
  the state on whether the product is in the quote.  What each operation does to the
  items is fixed:
  \<^item> adding a product the render has: every item of that product gets its quantity
    raised by 1, every other item stays as it is, nothing is appended;
  \<^item> adding a product the render has not: one item of quantity 1 and discount 0 is
    appended, the rest stays;
  \<^item> a new quantity of 0 or less: the product is gone from the quote and the items of
    the other products stay, in their order;
  \<^item> a positive new quantity: the items of the product get it, every other item stays;
  \<^item> a discount: the items of the product get it clamped (0 below 0, 100 above 100),
    every other item stays.
\<close>

theorem quote_invariant_preserved:
  "quote_invariant (quote_after actions)
   \<and> (quote_invariant items
        \<and> (product_id p \<in> set (map (\<lambda>item. product_id (product item)) rendered))
            = (product_id p \<in> set (map (\<lambda>item. product_id (product item)) items))
        \<longrightarrow> quote_invariant (addProductToQuote p rendered items))
   \<and> (quote_invariant items \<longrightarrow>
        quote_invariant (updateQuantity k q items) \<and> quote_invariant (updateDiscount k d items))
   \<and> (product_id p \<in> set (map (\<lambda>item. product_id (product item)) rendered) \<longrightarrow>
        list_all2 (\<lambda>old new. new = (if product_id (product old) = product_id p
                                    then old\<lparr>quantity := quantity old + 1\<rparr> else old))
          items (addProductToQuote p rendered items))
   \<and> (product_id p \<notin> set (map (\<lambda>item. product_id (product item)) rendered) \<longrightarrow>
        addProductToQuote p rendered items = items @ [\<lparr>product = p, quantity = 1, discount = 0\<rparr>])
   \<and> (q \<le> 0 \<longrightarrow>
        k \<notin> set (map (\<lambda>item. product_id (product item)) (updateQuantity k q items))
        \<and> filter (\<lambda>item. product_id (product item) \<noteq> k) (updateQuantity k q items)
            = filter (\<lambda>item. product_id (product item) \<noteq> k) items)
   \<and> (0 < q \<longrightarrow>
        list_all2 (\<lambda>old new. new = (if product_id (product old) = k
                                    then old\<lparr>quantity := q\<rparr> else old))
          items (updateQuantity k q items))
   \<and> list_all2 (\<lambda>old new. new = (if product_id (product old) = k
                                  then old\<lparr>discount := (if d < 0 then 0 else if 100 < d then 100 else d)\<rparr>
                                  else old))
        items (updateDiscount k d items)"
proof -
  have a: "quote_invariant (quote_after actions)"
    unfolding quote_after_def by (rule foldl_quote_inv) (simp add: quote_invariant_def)
  have b: "quote_invariant items
        \<and> (product_id p \<in> set (map (\<lambda>item. product_id (product item)) rendered))
            = (product_id p \<in> set (map (\<lambda>item. product_id (product item)) items))
        \<longrightarrow> quote_invariant (addProductToQuote p rendered items)"
    using addProductToQuote_inv by blast
  have c: "quote_invariant items \<longrightarrow>
        quote_invariant (updateQuantity k q items) \<and> quote_invariant (updateDiscount k d items)"
    by (simp add: updateQuantity_inv updateDiscount_inv)
  have d: "product_id p \<in> set (map (\<lambda>item. product_id (product item)) rendered) \<longrightarrow>
        list_all2 (\<lambda>old new. new = (if product_id (product old) = product_id p
                                    then old\<lparr>quantity := quantity old + 1\<rparr> else old))
          items (addProductToQuote p rendered items)"
  proof
    assume "product_id p \<in> set (map (\<lambda>item. product_id (product item)) rendered)"
    then have "addProductToQuote p rendered items =
           map (\<lambda>item. if product_id (product item) = product_id p
                        then item\<lparr>quantity := quantity item + 1\<rparr> else item) items"
      by (rule addProductToQuote_present)
    then show "list_all2 (\<lambda>old new. new = (if product_id (product old) = product_id p
                                    then old\<lparr>quantity := quantity old + 1\<rparr> else old))
          items (addProductToQuote p rendered items)"
      by (simp only:) (rule list_all2_map_same, simp)
  qed
  have e: "product_id p \<notin> set (map (\<lambda>item. product_id (product item)) rendered) \<longrightarrow>
        addProductToQuote p rendered items = items @ [\<lparr>product = p, quantity = 1, discount = 0\<rparr>]"
    using addProductToQuote_absent by blast
  have f: "q \<le> 0 \<longrightarrow>
        k \<notin> set (map (\<lambda>item. product_id (product item)) (updateQuantity k q items))
        \<and> filter (\<lambda>item. product_id (product item) \<noteq> k) (updateQuantity k q items)
            = filter (\<lambda>item. product_id (product item) \<noteq> k) items"
    by (auto simp: updateQuantity_def)
  have g: "0 < q \<longrightarrow>
        list_all2 (\<lambda>old new. new = (if product_id (product old) = k
                                    then old\<lparr>quantity := q\<rparr> else old))
          items (updateQuantity k q items)"
  proof
    assume "0 < q"
    then have "updateQuantity k q items =
        map (\<lambda>item. if product_id (product item) = k then item\<lparr>quantity := q\<rparr> else item) items"
      by (simp add: updateQuantity_def)
    then show "list_all2 (\<lambda>old new. new = (if product_id (product old) = k
                                    then old\<lparr>quantity := q\<rparr> else old))
          items (updateQuantity k q items)"
      by (simp only:) (rule list_all2_map_same, simp)
  qed
  have h: "list_all2 (\<lambda>old new. new = (if product_id (product old) = k
                                  then old\<lparr>discount := (if d < 0 then 0 else if 100 < d then 100 else d)\<rparr>
                                  else old))
        items (updateDiscount k d items)"
    unfolding updateDiscount_def clamp_cases
    by (rule list_all2_map_same) simp
  from a b c d e f g h show ?thesis by (intro conjI)
qed

text \<open>A quote of two products: adding the first again, adding a third, the quantities 0
  and 3 for the first, the discounts 150 for the first and -5 for the second.\<close>

theorem quote_invariant_preserved_witness:
  "quote_invariant example_quote
   \<and> map quote_row (addProductToQuote example_product example_quote example_quote)
       = [(''p1'', 2, 0), (''p2'', 5, 10)]
   \<and> quote_invariant (addProductToQuote example_product example_quote example_quote)
   \<and> map quote_row (addProductToQuote example_product3 example_quote example_quote)
       = [(''p1'', 1, 0), (''p2'', 5, 10), (''p3'', 1, 0)]
   \<and> quote_invariant (addProductToQuote example_product3 example_quote example_quote)
   \<and> map quote_row (updateQuantity ''p1'' 0 example_quote) = [(''p2'', 5, 10)]
   \<and> quote_invariant (updateQuantity ''p1'' 0 example_quote)
   \<and> map quote_row (updateQuantity ''p1'' 3 example_quote) = [(''p1'', 3, 0), (''p2'', 5, 10)]
   \<and> map quote_row (updateDiscount ''p1'' 150 example_quote) = [(''p1'', 1, 100), (''p2'', 5, 10)]
   \<and> map quote_row (updateDiscount ''p2'' (- 5) example_quote) = [(''p1'', 1, 0), (''p2'', 5, 0)]
   \<and> quote_invariant (updateDiscount ''p1'' 150 example_quote)"
proof -
  note defs = example_quote_def example_product_def example_product2_def example_product3_def
  have inv: "quote_invariant example_quote"
    by (simp add: quote_invariant_def defs)
  have present: "product_id example_product
                   \<in> set (map (\<lambda>item. product_id (product item)) example_quote)"
    by (simp add: defs)
  have absent: "product_id example_product3
                   \<notin> set (map (\<lambda>item. product_id (product item)) example_quote)"
    by (simp add: defs)
  note t1 = quote_invariant_preserved[of "[]" example_quote example_product example_quote "''p1''" 0 150]
  note t2 = quote_invariant_preserved[of "[]" example_quote example_product3 example_quote "''p1''" 3 150]
  note t3 = quote_invariant_preserved[of "[]" example_quote example_product example_quote "''p2''" 3 "- 5"]
  from t1 present
  have "list_all2 (\<lambda>old new. new = (if product_id (product old) = product_id example_product
                                    then old\<lparr>quantity := quantity old + 1\<rparr> else old))
          example_quote (addProductToQuote example_product example_quote example_quote)"
    by blast
  then have a1: "map quote_row (addProductToQuote example_product example_quote example_quote)
       = [(''p1'', 2, 0), (''p2'', 5, 10)]"
    by (auto simp add: defs list_all2_Cons1 quote_row_def)
  from t1 inv have a2: "quote_invariant (addProductToQuote example_product example_quote example_quote)"
    by blast
  from t2 absent
  have "addProductToQuote example_product3 example_quote example_quote
          = example_quote @ [\<lparr>product = example_product3, quantity = 1, discount = 0\<rparr>]"
    by blast
  then have b1: "map quote_row (addProductToQuote example_product3 example_quote example_quote)
       = [(''p1'', 1, 0), (''p2'', 5, 10), (''p3'', 1, 0)]"
    by (simp add: defs quote_row_def)
  from t2 inv have b2: "quote_invariant (addProductToQuote example_product3 example_quote example_quote)"
    by blast
  have nonpos: "(0::int) \<le> 0" and pos: "(0::int) < 3"
    by simp_all
  from t1 nonpos
  have k: "''p1'' \<notin> set (map (\<lambda>item. product_id (product item)) (updateQuantity ''p1'' 0 example_quote))"
    and fr: "filter (\<lambda>item. product_id (product item) \<noteq> ''p1'') (updateQuantity ''p1'' 0 example_quote)
            = filter (\<lambda>item. product_id (product item) \<noteq> ''p1'') example_quote"
    by blast+
  from k have "filter (\<lambda>item. product_id (product item) \<noteq> ''p1'') (updateQuantity ''p1'' 0 example_quote)
                 = updateQuantity ''p1'' 0 example_quote"
    by (rule filter_absent_key)
  with fr have c1: "map quote_row (updateQuantity ''p1'' 0 example_quote) = [(''p2'', 5, 10)]"
    by (simp add: defs quote_row_def)
  from t1 inv have c2: "quote_invariant (updateQuantity ''p1'' 0 example_quote)"
    and e2: "quote_invariant (updateDiscount ''p1'' 150 example_quote)"
    by blast+
  from t2 pos
  have "list_all2 (\<lambda>old new. new = (if product_id (product old) = ''p1''
                                    then old\<lparr>quantity := 3\<rparr> else old))
          example_quote (updateQuantity ''p1'' 3 example_quote)"
    by blast
  then have d1: "map quote_row (updateQuantity ''p1'' 3 example_quote) = [(''p1'', 3, 0), (''p2'', 5, 10)]"
    by (auto simp add: defs list_all2_Cons1 quote_row_def)
  from t1
  have "list_all2 (\<lambda>old new. new = (if product_id (product old) = ''p1''
                                  then old\<lparr>discount := (if (150::real) < 0 then 0 else if 100 < (150::real) then 100 else 150)\<rparr>
                                  else old))
        example_quote (updateDiscount ''p1'' 150 example_quote)"
    by blast
  then have e1: "map quote_row (updateDiscount ''p1'' 150 example_quote) = [(''p1'', 1, 100), (''p2'', 5, 10)]"
    by (auto simp add: defs list_all2_Cons1 quote_row_def)
  from t3
  have "list_all2 (\<lambda>old new. new = (if product_id (product old) = ''p2''
                                  then old\<lparr>discount := (if (- 5::real) < 0 then 0 else if 100 < (- 5::real) then 100 else - 5)\<rparr>
                                  else old))
        example_quote (updateDiscount ''p2'' (- 5) example_quote)"
    by blast
  then have f1: "map quote_row (updateDiscount ''p2'' (- 5) example_quote) = [(''p1'', 1, 0), (''p2'', 5, 0)]"
    by (auto simp add: defs list_all2_Cons1 quote_row_def)
  from inv a1 a2 b1 b2 c1 c2 d1 e1 f1 e2 show ?thesis by (intro conjI)
qed

text \<open>
  Without the hypothesis on the render the first invariant is lost: two adds of a new
  product by the handlers of one render, which both saw the empty quote, append twice.
  The component renders again between two clicks, so the user's actions do not get there
  (\<open>quote_after\<close>).
\<close>

lemma addProductToQuote_stale_render:
  "addProductToQuote example_product [] (addProductToQuote example_product [] [])
     = [\<lparr>product = example_product, quantity = 1, discount = 0\<rparr>,
        \<lparr>product = example_product, quantity = 1, discount = 0\<rparr>]
   \<and> \<not> quote_invariant (addProductToQuote example_product [] (addProductToQuote example_product [] []))"
  by (simp add: addProductToQuote_def quote_invariant_def)


section \<open>Properties of the report generator\<close>

lemma foldl_plus_sum_list:
  fixes a :: real
  shows "foldl (\<lambda>sum x. sum + f x) a xs = a + sum_list (map f xs)"
  by (induction xs arbitrary: a) simp_all

text \<open>
  Claim C3.  In the summary of \<^verbatim>\<open>processReportData\<close>, \<^verbatim>\<open>totalSales\<close> is the sum of the
  orders' totals, \<^verbatim>\<open>totalOrders\<close> the number of orders, \<^verbatim>\<open>totalClients\<close> the number of
  distinct client ids, and \<^verbatim>\<open>avgOrderValue\<close> is \<^verbatim>\<open>totalSales / totalOrders\<close> when there is an
  order and 0 when there is none.
\<close>

theorem processReportData_summary:
  "totalSales (summary (processReportData orders)) = sum_list (map total orders)
   \<and> totalOrders (summary (processReportData orders)) = length orders
   \<and> totalClients (summary (processReportData orders)) = card (cliente_id ` set orders)
   \<and> (0 < totalOrders (summary (processReportData orders)) \<longrightarrow>
         avgOrderValue (summary (processReportData orders))
           = totalSales (summary (processReportData orders))
               / real (totalOrders (summary (processReportData orders))))
   \<and> (orders = [] \<longrightarrow> avgOrderValue (summary (processReportData orders)) = 0)"
proof -
  have s: "summary (processReportData orders) = report_summary_of orders"
    by (simp add: processReportData_def)
  have clients: "length (remdups (map cliente_id orders)) = card (cliente_id ` set orders)"
    by (simp add: length_remdups_card_conv)
  show ?thesis
    unfolding s report_summary_of_def Let_def
    by (simp add: foldl_plus_sum_list clients)
qed

theorem processReportData_summary_witness:
  "totalSales (summary (processReportData example_orders)) = 69
   \<and> totalOrders (summary (processReportData example_orders)) = 3
   \<and> totalClients (summary (processReportData example_orders)) = 2
   \<and> avgOrderValue (summary (processReportData example_orders)) = 23
   \<and> avgOrderValue (summary (processReportData [])) = 0"
proof -
  note t = processReportData_summary[of example_orders]
  have sum: "sum_list (map total example_orders) = 69"
    by (simp add: example_orders_def)
  have len: "length example_orders = 3"
    by (simp add: example_orders_def)
  have cl: "card (cliente_id ` set example_orders) = 2"
    by (simp add: example_orders_def card_insert_if)
  from t sum have a: "totalSales (summary (processReportData example_orders)) = 69"
    by simp
  from t len have b: "totalOrders (summary (processReportData example_orders)) = 3"
    by simp
  from t cl have c: "totalClients (summary (processReportData example_orders)) = 2"
    by simp
  from t a b have d: "avgOrderValue (summary (processReportData example_orders)) = 23"
    by simp
  from processReportData_summary[of "[]"]
  have e: "avgOrderValue (summary (processReportData [])) = 0"
    by blast
  from a b c d e show ?thesis by (intro conjI)
qed


















section \<open>Properties of useOrderOperations\<close>

lemma request_pedido_items_update_sent:
  "sent (snd (request_pedido_items_update now i u w)) = sent w @ [UpdatePedidoItems i u]"
  by (simp add: request_pedido_items_update_def request_sent_def split: option.splits)

lemma request_pedido_items_update_database:
  "database (snd (request_pedido_items_update now i u w)) =
     (if fst (request_pedido_items_update now i u w) = None
      then update_pedido_items now i u (database w) else database w)"
  by (simp add: request_pedido_items_update_def request_sent_def split: option.splits)

lemma request_pedido_items_update_frame:
  "toasts (snd (request_pedido_items_update now i u w)) = toasts w"
  "loading (snd (request_pedido_items_update now i u w)) = loading w"
  by (simp_all add: request_pedido_items_update_def request_sent_def split: option.splits)

lemma request_pedidos_update_sent:
  "sent (snd (request_pedidos_update i u w)) = sent w @ [UpdatePedidos i u]"
  by (simp add: request_pedidos_update_def request_sent_def split: option.splits)

lemma request_pedidos_update_database:
  "database (snd (request_pedidos_update i u w)) =
     (if fst (request_pedidos_update i u w) = None
      then update_pedidos i u (database w) else database w)"
  by (simp add: request_pedidos_update_def request_sent_def split: option.splits)

lemma request_rpc_check_stock_sent:
  "sent (snd (request_rpc_check_stock ids w)) = sent w @ [RpcCheckStock ids]"
  by (simp add: request_rpc_check_stock_def request_sent_def split: option.splits prod.splits)

lemma request_rpc_check_stock_database:
  "database (snd (request_rpc_check_stock ids w)) = database w"
  by (simp add: request_rpc_check_stock_def request_sent_def split: option.splits prod.splits)

lemma single_update_result:
  "fst (try_catch_finally (single_update_body request ok) catch_error (setLoading False) w)
     = Inr (fst (request w) = None)"
  by (cases "request w"; cases "fst (request w)")
     (simp_all add: try_catch_finally_def single_update_body_def throw_if_error_def catch_error_def)

lemma single_update_sent:
  "sent (snd (try_catch_finally (single_update_body request ok) catch_error (setLoading False) w))
     = sent (snd (request w))"
  by (cases "request w"; cases "fst (request w)")
     (simp_all add: try_catch_finally_def single_update_body_def throw_if_error_def catch_error_def
        toast_def setLoading_def)

lemma single_update_database:
  "database (snd (try_catch_finally (single_update_body request ok) catch_error (setLoading False) w))
     = database (snd (request w))"
  by (cases "request w"; cases "fst (request w)")
     (simp_all add: try_catch_finally_def single_update_body_def throw_if_error_def catch_error_def
        toast_def setLoading_def)

lemma single_update_loading:
  "loading (snd (try_catch_finally (single_update_body request ok) catch_error (setLoading False) w))
     = False"
  by (cases "request w"; cases "fst (request w)")
     (simp_all add: try_catch_finally_def single_update_body_def throw_if_error_def catch_error_def
        toast_def setLoading_def)

lemma updateItemStatus_alt:
  "updateItemStatus now i st n w =
     try_catch_finally
       (single_update_body (request_pedido_items_update now i (item_status_payload now st n))
          \<lparr>title = ''Estado actualizado'', description = ''Item marcado como '' @ st, destructive = False\<rparr>)
       catch_error (setLoading False) (setLoading True w)"
  unfolding updateItemStatus_def single_update_body_def by (rule refl)

lemma scheduleDelivery_alt:
  "scheduleDelivery fmt i dd w =
     try_catch_finally
       (single_update_body (request_pedidos_update i (delivery_payload dd))
          \<lparr>title = ''Entrega programada'', description = ''Pedido programado para '' @ fmt dd, destructive = False\<rparr>)
       catch_error (setLoading False) (setLoading True w)"
  unfolding scheduleDelivery_def single_update_body_def by (rule refl)

lemma updateOrderStatus_alt:
  "updateOrderStatus i st n w =
     try_catch_finally
       (single_update_body (request_pedidos_update i (order_status_payload st n))
          \<lparr>title = ''Estado actualizado'', description = ''Pedido marcado como '' @ st, destructive = False\<rparr>)
       catch_error (setLoading False) (setLoading True w)"
  unfolding updateOrderStatus_def single_update_body_def by (rule refl)

lemma sent_setLoading: "sent (setLoading b w) = sent w" "database (setLoading b w) = database w"
  by (simp_all add: setLoading_def)

lemma updatePromises_Cons:
  "updatePromises now (s # sel) w =
     (fst (request_pedido_items_update now (itemId s) (confirm_payload now s) w)
        # fst (updatePromises now sel (snd (request_pedido_items_update now (itemId s) (confirm_payload now s) w))),
      snd (updatePromises now sel (snd (request_pedido_items_update now (itemId s) (confirm_payload now s) w))))"
  by (simp add: case_prod_beta)

lemma updatePromises_sent:
  "sent (snd (updatePromises now sel w)) =
     sent w @ map (\<lambda>s. UpdatePedidoItems (itemId s) (confirm_payload now s)) sel"
proof (induction sel arbitrary: w)
  case Nil
  show ?case by simp
next
  case (Cons s sel)
  show ?case
    unfolding updatePromises_Cons
    by (simp add: Cons.IH request_pedido_items_update_sent)
qed

lemma updatePromises_length: "length (fst (updatePromises now sel w)) = length sel"
proof (induction sel arbitrary: w)
  case Nil
  show ?case by simp
next
  case (Cons s sel)
  show ?case
    unfolding updatePromises_Cons by (simp add: Cons.IH)
qed

lemma updatePromises_database:
  "database (snd (updatePromises now sel w)) =
     fold (\<lambda>(s, e) d. if e = None then update_pedido_items now (itemId s) (confirm_payload now s) d else d)
       (zip sel (fst (updatePromises now sel w))) (database w)"
proof (induction sel arbitrary: w)
  case Nil
  show ?case by simp
next
  case (Cons s sel)
  show ?case
    unfolding updatePromises_Cons
    by (simp add: Cons.IH request_pedido_items_update_database)
qed

lemma updatePromises_frame:
  "toasts (snd (updatePromises now sel w)) = toasts w \<and> loading (snd (updatePromises now sel w)) = loading w"
proof (induction sel arbitrary: w)
  case Nil
  show ?case by simp
next
  case (Cons s sel)
  show ?case
    unfolding updatePromises_Cons
    by (simp add: Cons.IH request_pedido_items_update_frame)
qed

lemma Promise_all_Inr: "(Promise_all es = Inr ()) = list_all (\<lambda>e. e = None) es"
  by (induction es rule: Promise_all.induct) simp_all

lemma Promise_all_cases: "Promise_all es = Inr () \<or> (\<exists>e. Promise_all es = Inl e)"
  by (induction es rule: Promise_all.induct) simp_all


lemma confirmPartialOrder_result:
  "fst (confirmPartialOrder now pid sel n w) =
     Inr (list_all (\<lambda>e. e = None) (fst (updatePromises now sel (setLoading True w)))
          \<and> fst (request_pedidos_update pid (confirm_order_payload sel n)
                   (snd (updatePromises now sel (setLoading True w)))) = None)"
proof (cases "Promise_all (fst (updatePromises now sel (setLoading True w)))")
  case (Inl e)
  then have "\<not> list_all (\<lambda>e. e = None) (fst (updatePromises now sel (setLoading True w)))"
    using Promise_all_Inr[of "fst (updatePromises now sel (setLoading True w))"] by simp
  with Inl show ?thesis
    by (simp add: confirmPartialOrder_def try_catch_finally_def confirmPartialOrder_body_def
          catch_error_def case_prod_beta)
next
  case (Inr u)
  then have "list_all (\<lambda>e. e = None) (fst (updatePromises now sel (setLoading True w)))"
    using Promise_all_Inr[of "fst (updatePromises now sel (setLoading True w))"] by simp
  with Inr show ?thesis
    by (cases "fst (request_pedidos_update pid (confirm_order_payload sel n)
                   (snd (updatePromises now sel (setLoading True w))))")
       (simp_all add: confirmPartialOrder_def try_catch_finally_def confirmPartialOrder_body_def
          catch_error_def throw_if_error_def case_prod_beta split: prod.splits)
qed

lemma confirmPartialOrder_failed_items:
  assumes "\<not> list_all (\<lambda>e. e = None) (fst (updatePromises now sel (setLoading True w)))"
  shows "sent (snd (confirmPartialOrder now pid sel n w)) = sent (snd (updatePromises now sel (setLoading True w)))"
    and "database (snd (confirmPartialOrder now pid sel n w)) = database (snd (updatePromises now sel (setLoading True w)))"
    and "loading (snd (confirmPartialOrder now pid sel n w)) = False"
proof -
  from assms obtain e where e: "Promise_all (fst (updatePromises now sel (setLoading True w))) = Inl e"
    using Promise_all_cases[of "fst (updatePromises now sel (setLoading True w))"]
          Promise_all_Inr[of "fst (updatePromises now sel (setLoading True w))"] by auto
  show "sent (snd (confirmPartialOrder now pid sel n w)) = sent (snd (updatePromises now sel (setLoading True w)))"
    using e by (simp add: confirmPartialOrder_def try_catch_finally_def confirmPartialOrder_body_def
          catch_error_def case_prod_beta toast_def setLoading_def)
  show "database (snd (confirmPartialOrder now pid sel n w)) = database (snd (updatePromises now sel (setLoading True w)))"
    using e by (simp add: confirmPartialOrder_def try_catch_finally_def confirmPartialOrder_body_def
          catch_error_def case_prod_beta toast_def setLoading_def)
  show "loading (snd (confirmPartialOrder now pid sel n w)) = False"
    using e by (simp add: confirmPartialOrder_def try_catch_finally_def confirmPartialOrder_body_def
          catch_error_def case_prod_beta toast_def setLoading_def)
qed

lemma confirmPartialOrder_sent:
  "sent (snd (confirmPartialOrder now pid sel n w)) =
     sent w @ map (\<lambda>s. UpdatePedidoItems (itemId s) (confirm_payload now s)) sel
       @ (if list_all (\<lambda>e. e = None) (fst (updatePromises now sel (setLoading True w)))
          then [UpdatePedidos pid (confirm_order_payload sel n)] else [])"
proof (cases "list_all (\<lambda>e. e = None) (fst (updatePromises now sel (setLoading True w)))")
  case False
  then show ?thesis
    by (simp add: confirmPartialOrder_failed_items(1) updatePromises_sent sent_setLoading)
next
  case True
  then have p: "Promise_all (fst (updatePromises now sel (setLoading True w))) = Inr ()"
    by (simp add: Promise_all_Inr)
  have "sent (snd (confirmPartialOrder now pid sel n w)) =
          sent (snd (request_pedidos_update pid (confirm_order_payload sel n)
                   (snd (updatePromises now sel (setLoading True w)))))"
    using p
    by (cases "fst (request_pedidos_update pid (confirm_order_payload sel n)
                   (snd (updatePromises now sel (setLoading True w))))")
       (simp_all add: confirmPartialOrder_def try_catch_finally_def confirmPartialOrder_body_def
          catch_error_def throw_if_error_def case_prod_beta toast_def setLoading_def split: prod.splits)
  with True show ?thesis
    by (simp add: request_pedidos_update_sent updatePromises_sent sent_setLoading)
qed

text \<open>An update of items, with its trigger, writes neither the notes nor the confirmation
  record of any order.\<close>

lemma trigger_fn_keeps_notes:
  "map pedidos_notas_operativas (pedidos (update_order_status_from_items now NEW d)) = map pedidos_notas_operativas (pedidos d)"
  "map pedidos_items_confirmados (pedidos (update_order_status_from_items now NEW d)) = map pedidos_items_confirmados (pedidos d)"
  by (simp_all add: update_order_status_from_items_def comp_def)

lemma trigger_keeps_notes:
  "map pedidos_notas_operativas (pedidos (update_order_status_trigger now u OLD d)) = map pedidos_notas_operativas (pedidos d)"
  "map pedidos_items_confirmados (pedidos (update_order_status_trigger now u OLD d)) = map pedidos_items_confirmados (pedidos d)"
  by (simp_all add: update_order_status_trigger_def trigger_fn_keeps_notes)

lemma fold_trigger_keeps_notes:
  "map pedidos_notas_operativas (pedidos (fold (update_order_status_trigger now u) olds d)) = map pedidos_notas_operativas (pedidos d)
   \<and> map pedidos_items_confirmados (pedidos (fold (update_order_status_trigger now u) olds d)) = map pedidos_items_confirmados (pedidos d)"
  by (induction olds arbitrary: d) (simp_all add: trigger_keeps_notes)

lemma update_pedido_items_keeps_notes:
  "map pedidos_notas_operativas (pedidos (update_pedido_items now i u d)) = map pedidos_notas_operativas (pedidos d)"
  "map pedidos_items_confirmados (pedidos (update_pedido_items now i u d)) = map pedidos_items_confirmados (pedidos d)"
  unfolding update_pedido_items_def by (simp_all add: fold_trigger_keeps_notes)

lemma fold_updates_keep_notes:
  "map pedidos_notas_operativas (pedidos (fold (\<lambda>(s, e) d. if e = None then update_pedido_items now (itemId s) (confirm_payload now s) d else d) zs d)) = map pedidos_notas_operativas (pedidos d)
   \<and> map pedidos_items_confirmados (pedidos (fold (\<lambda>(s, e) d. if e = None then update_pedido_items now (itemId s) (confirm_payload now s) d else d) zs d)) = map pedidos_items_confirmados (pedidos d)"
  by (induction zs arbitrary: d) (simp_all add: update_pedido_items_keeps_notes case_prod_beta)



lemma checkStockAvailability_result:
  "fst (checkStockAvailability ids w) =
     Inr (case fst (request_rpc_check_stock ids (setLoading True w)) of
            (dat, Some e) \<Rightarrow> []
          | (None, None) \<Rightarrow> []
          | (Some rows, None) \<Rightarrow> rows)"
  by (simp add: checkStockAvailability_def try_catch_finally_def case_prod_beta
        split: prod.splits option.splits)

lemma checkStockAvailability_sent:
  "sent (snd (checkStockAvailability ids w)) = sent w @ [RpcCheckStock ids]"
proof -
  have "sent (snd (checkStockAvailability ids w))
          = sent (snd (request_rpc_check_stock ids (setLoading True w)))"
    by (simp add: checkStockAvailability_def try_catch_finally_def case_prod_beta toast_def
          setLoading_def split: prod.splits option.splits)
  then show ?thesis
    by (simp add: request_rpc_check_stock_sent sent_setLoading)
qed

text \<open>
  Claim C6.  Each of the five operations returns (\<open>Inr\<close>) and never throws (\<open>Inl\<close>): the
  value is \<open>True\<close> exactly when no request of the operation is answered with an error, and
  the failure value otherwise (\<open>False\<close>, or the empty list for \<^verbatim>\<open>checkStockAvailability\<close>,
  which returns the rows when the call succeeds).  Each request is sent once, whatever its
  outcome: the log of an operation is the log before it followed by its own requests.
\<close>

theorem useOrderOperations_catch_and_never_retry:
  "fst (updateItemStatus now i st n w)
     = Inr (fst (request_pedido_items_update now i (item_status_payload now st n)
                  (setLoading True w)) = None)
   \<and> sent (snd (updateItemStatus now i st n w))
       = sent w @ [UpdatePedidoItems i (item_status_payload now st n)]
   \<and> fst (scheduleDelivery fmt pid dd w)
       = Inr (fst (request_pedidos_update pid (delivery_payload dd) (setLoading True w)) = None)
   \<and> sent (snd (scheduleDelivery fmt pid dd w)) = sent w @ [UpdatePedidos pid (delivery_payload dd)]
   \<and> fst (updateOrderStatus pid st n w)
       = Inr (fst (request_pedidos_update pid (order_status_payload st n) (setLoading True w)) = None)
   \<and> sent (snd (updateOrderStatus pid st n w))
       = sent w @ [UpdatePedidos pid (order_status_payload st n)]
   \<and> fst (checkStockAvailability ids w)
       = Inr (case fst (request_rpc_check_stock ids (setLoading True w)) of
                (dat, Some e) \<Rightarrow> []
              | (None, None) \<Rightarrow> []
              | (Some rows, None) \<Rightarrow> rows)
   \<and> sent (snd (checkStockAvailability ids w)) = sent w @ [RpcCheckStock ids]
   \<and> fst (confirmPartialOrder now pid sel n w)
       = Inr (list_all (\<lambda>e. e = None) (fst (updatePromises now sel (setLoading True w)))
              \<and> fst (request_pedidos_update pid (confirm_order_payload sel n)
                       (snd (updatePromises now sel (setLoading True w)))) = None)
   \<and> sent (snd (confirmPartialOrder now pid sel n w))
       = sent w @ map (\<lambda>s. UpdatePedidoItems (itemId s) (confirm_payload now s)) sel
           @ (if list_all (\<lambda>e. e = None) (fst (updatePromises now sel (setLoading True w)))
              then [UpdatePedidos pid (confirm_order_payload sel n)] else [])"
proof -
  have a1: "fst (updateItemStatus now i st n w)
     = Inr (fst (request_pedido_items_update now i (item_status_payload now st n)
                  (setLoading True w)) = None)"
    unfolding updateItemStatus_alt by (rule single_update_result)
  have a2: "sent (snd (updateItemStatus now i st n w))
       = sent w @ [UpdatePedidoItems i (item_status_payload now st n)]"
    unfolding updateItemStatus_alt single_update_sent
    by (simp add: request_pedido_items_update_sent sent_setLoading)
  have b1: "fst (scheduleDelivery fmt pid dd w)
       = Inr (fst (request_pedidos_update pid (delivery_payload dd) (setLoading True w)) = None)"
    unfolding scheduleDelivery_alt by (rule single_update_result)
  have b2: "sent (snd (scheduleDelivery fmt pid dd w)) = sent w @ [UpdatePedidos pid (delivery_payload dd)]"
    unfolding scheduleDelivery_alt single_update_sent
    by (simp add: request_pedidos_update_sent sent_setLoading)
  have c1: "fst (updateOrderStatus pid st n w)
       = Inr (fst (request_pedidos_update pid (order_status_payload st n) (setLoading True w)) = None)"
    unfolding updateOrderStatus_alt by (rule single_update_result)
  have c2: "sent (snd (updateOrderStatus pid st n w))
       = sent w @ [UpdatePedidos pid (order_status_payload st n)]"
    unfolding updateOrderStatus_alt single_update_sent
    by (simp add: request_pedidos_update_sent sent_setLoading)
  note d1 = checkStockAvailability_result[of ids w]
  note d2 = checkStockAvailability_sent[of ids w]
  note e1 = confirmPartialOrder_result[of now pid sel n w]
  note e2 = confirmPartialOrder_sent[of now pid sel n w]
  from a1 a2 b1 b2 c1 c2 d1 d2 e1 e2 show ?thesis by (intro conjI)
qed

text \<open>A timed-out request: \<^verbatim>\<open>updateItemStatus\<close> returns \<open>False\<close> and
  \<^verbatim>\<open>checkStockAvailability\<close> the empty list, each after one request; the same update
  returns \<open>True\<close> when the request goes through.\<close>

theorem useOrderOperations_catch_and_never_retry_witness:
  "fst (updateItemStatus 7 ''i2'' ''confirmado'' None failing_world) = Inr False
   \<and> length (sent (snd (updateItemStatus 7 ''i2'' ''confirmado'' None failing_world))) = 1
   \<and> fst (checkStockAvailability [''p1''] failing_world) = Inr []
   \<and> length (sent (snd (checkStockAvailability [''p1''] failing_world))) = 1
   \<and> fst (updateItemStatus 7 ''i2'' ''confirmado'' None example_world) = Inr True"
proof -
  note t = useOrderOperations_catch_and_never_retry
             [of 7 "''i2''" "''confirmado''" None failing_world id "''o1''" "''2025-08-20''" "[''p1'']" "[]"]
  note t' = useOrderOperations_catch_and_never_retry
             [of 7 "''i2''" "''confirmado''" None example_world id "''o1''" "''2025-08-20''" "[''p1'']" "[]"]
  have f: "fst (request_pedido_items_update 7 ''i2'' (item_status_payload 7 ''confirmado'' None)
                  (setLoading True failing_world)) = Some ''timeout''"
    by (simp add: request_pedido_items_update_def next_outcome_def failing_world_def setLoading_def)
  have g: "fst (request_rpc_check_stock [''p1''] (setLoading True failing_world))
             = (None, Some ''timeout'')"
    by (simp add: request_rpc_check_stock_def next_outcome_def failing_world_def setLoading_def)
  have h: "fst (request_pedido_items_update 7 ''i2'' (item_status_payload 7 ''confirmado'' None)
                  (setLoading True example_world)) = None"
    by (simp add: request_pedido_items_update_def next_outcome_def example_world_def setLoading_def
          item_status_payload_def pedido_items_estado_check_def)
  from t f have a: "fst (updateItemStatus 7 ''i2'' ''confirmado'' None failing_world) = Inr False"
    by simp
  from t have b: "length (sent (snd (updateItemStatus 7 ''i2'' ''confirmado'' None failing_world))) = 1"
    by (simp add: failing_world_def)
  from t g have c: "fst (checkStockAvailability [''p1''] failing_world) = Inr []"
    by simp
  from t have d: "length (sent (snd (checkStockAvailability [''p1''] failing_world))) = 1"
    by (simp add: failing_world_def)
  from t' h have e: "fst (updateItemStatus 7 ''i2'' ''confirmado'' None example_world) = Inr True"
    by simp
  from a b c d e show ?thesis by (intro conjI)
qed

text \<open>
  Claim C7.  \<^verbatim>\<open>confirmPartialOrder\<close> sends one update for each selected item, with the
  status \<^verbatim>\<open>confirmado\<close> for a confirmed item and \<^verbatim>\<open>no_confirmado\<close> otherwise.  When one of
  these updates fails it returns \<open>False\<close>, sends no request for the order, leaves the
  database as the item updates that succeeded made it (none is undone), and leaves the
  notes and the confirmation record of every order as they were.
\<close>

theorem confirmPartialOrder_not_atomic:
  "sent (snd (updatePromises now sel (setLoading True w)))
     = sent w @ map (\<lambda>s. UpdatePedidoItems (itemId s) (confirm_payload now s)) sel
   \<and> upd_estado (confirm_payload now s) = (if confirmed s then ''confirmado'' else ''no_confirmado'')
   \<and> (\<not> list_all (\<lambda>e. e = None) (fst (updatePromises now sel (setLoading True w))) \<longrightarrow>
        fst (confirmPartialOrder now pid sel n w) = Inr False
        \<and> sent (snd (confirmPartialOrder now pid sel n w))
            = sent w @ map (\<lambda>s. UpdatePedidoItems (itemId s) (confirm_payload now s)) sel
        \<and> database (snd (confirmPartialOrder now pid sel n w))
            = fold (\<lambda>(s, e) d. if e = None
                                then update_pedido_items now (itemId s) (confirm_payload now s) d
                                else d)
                (zip sel (fst (updatePromises now sel (setLoading True w)))) (database w)
        \<and> map pedidos_notas_operativas (pedidos (database (snd (confirmPartialOrder now pid sel n w))))
            = map pedidos_notas_operativas (pedidos (database w))
        \<and> map pedidos_items_confirmados (pedidos (database (snd (confirmPartialOrder now pid sel n w))))
            = map pedidos_items_confirmados (pedidos (database w)))"
proof -
  let ?es = "fst (updatePromises now sel (setLoading True w))"
  have a: "sent (snd (updatePromises now sel (setLoading True w)))
     = sent w @ map (\<lambda>s. UpdatePedidoItems (itemId s) (confirm_payload now s)) sel"
    by (simp add: updatePromises_sent sent_setLoading)
  have b: "upd_estado (confirm_payload now s) = (if confirmed s then ''confirmado'' else ''no_confirmado'')"
    by (simp add: confirm_payload_def)
  have c: "\<not> list_all (\<lambda>e. e = None) ?es \<longrightarrow>
        fst (confirmPartialOrder now pid sel n w) = Inr False
        \<and> sent (snd (confirmPartialOrder now pid sel n w))
            = sent w @ map (\<lambda>s. UpdatePedidoItems (itemId s) (confirm_payload now s)) sel
        \<and> database (snd (confirmPartialOrder now pid sel n w))
            = fold (\<lambda>(s, e) d. if e = None
                                then update_pedido_items now (itemId s) (confirm_payload now s) d
                                else d)
                (zip sel ?es) (database w)
        \<and> map pedidos_notas_operativas (pedidos (database (snd (confirmPartialOrder now pid sel n w))))
            = map pedidos_notas_operativas (pedidos (database w))
        \<and> map pedidos_items_confirmados (pedidos (database (snd (confirmPartialOrder now pid sel n w))))
            = map pedidos_items_confirmados (pedidos (database w))"
  proof
    assume failed: "\<not> list_all (\<lambda>e. e = None) ?es"
    have r: "fst (confirmPartialOrder now pid sel n w) = Inr False"
      using failed by (simp add: confirmPartialOrder_result)
    have s: "sent (snd (confirmPartialOrder now pid sel n w))
            = sent w @ map (\<lambda>s. UpdatePedidoItems (itemId s) (confirm_payload now s)) sel"
      using failed by (simp add: confirmPartialOrder_sent)
    have d: "database (snd (confirmPartialOrder now pid sel n w))
            = fold (\<lambda>(s, e) d. if e = None
                                then update_pedido_items now (itemId s) (confirm_payload now s) d
                                else d)
                (zip sel ?es) (database w)"
      unfolding confirmPartialOrder_failed_items(2)[OF failed] updatePromises_database
      by (simp add: sent_setLoading)
    have k1: "map pedidos_notas_operativas (pedidos (database (snd (confirmPartialOrder now pid sel n w))))
            = map pedidos_notas_operativas (pedidos (database w))"
      unfolding d using fold_updates_keep_notes[of now "zip sel ?es" "database w"] by blast
    have k2: "map pedidos_items_confirmados (pedidos (database (snd (confirmPartialOrder now pid sel n w))))
            = map pedidos_items_confirmados (pedidos (database w))"
      unfolding d using fold_updates_keep_notes[of now "zip sel ?es" "database w"] by blast
    from r s d k1 k2 show "fst (confirmPartialOrder now pid sel n w) = Inr False
        \<and> sent (snd (confirmPartialOrder now pid sel n w))
            = sent w @ map (\<lambda>s. UpdatePedidoItems (itemId s) (confirm_payload now s)) sel
        \<and> database (snd (confirmPartialOrder now pid sel n w))
            = fold (\<lambda>(s, e) d. if e = None
                                then update_pedido_items now (itemId s) (confirm_payload now s) d
                                else d)
                (zip sel ?es) (database w)
        \<and> map pedidos_notas_operativas (pedidos (database (snd (confirmPartialOrder now pid sel n w))))
            = map pedidos_notas_operativas (pedidos (database w))
        \<and> map pedidos_items_confirmados (pedidos (database (snd (confirmPartialOrder now pid sel n w))))
            = map pedidos_items_confirmados (pedidos (database w))"
      by (intro conjI)
  qed
  from a b c show ?thesis by (intro conjI)
qed

lemma updatePromises_example:
  "fst (updatePromises 7 example_selection (setLoading True example_world)) = [None, Some ''timeout'']"
  by (simp add: example_selection_def example_world_def setLoading_def case_prod_beta
        request_pedido_items_update_def next_outcome_def request_sent_def example_db_def
        pedido_items_estado_check_def confirm_payload_def)

text \<open>The update of \<^verbatim>\<open>i2\<close> goes through and that of \<^verbatim>\<open>i3\<close> times out: the result is
  \<open>False\<close>, \<^verbatim>\<open>i2\<close> stays confirmed (and its order has moved to \<^verbatim>\<open>preparacion\<close>), \<^verbatim>\<open>i3\<close>
  keeps its status, and the notes \<^verbatim>\<open>revisado\<close> are not written.\<close>

theorem confirmPartialOrder_not_atomic_witness:
  "fst (updatePromises 7 example_selection (setLoading True example_world)) = [None, Some ''timeout'']
   \<and> fst (confirmPartialOrder 7 ''o1'' example_selection (Some ''revisado'') example_world) = Inr False
   \<and> length (sent (snd (confirmPartialOrder 7 ''o1'' example_selection (Some ''revisado'') example_world))) = 2
   \<and> map item_estado (pedido_items (database
        (snd (confirmPartialOrder 7 ''o1'' example_selection (Some ''revisado'') example_world))))
       = [Some ''confirmado'', Some ''confirmado'', Some ''confirmado'']
   \<and> map item_estado (pedido_items (database example_world))
       = [Some ''confirmado'', Some ''pendiente'', Some ''confirmado'']
   \<and> map pedidos_estado (pedidos (database
        (snd (confirmPartialOrder 7 ''o1'' example_selection (Some ''revisado'') example_world))))
       = [''preparacion'', ''cancelado'']
   \<and> map pedidos_notas_operativas (pedidos (database
        (snd (confirmPartialOrder 7 ''o1'' example_selection (Some ''revisado'') example_world))))
       = [None, None]"
proof -
  note es = updatePromises_example
  have failed: "\<not> list_all (\<lambda>e. e = None)
                   (fst (updatePromises 7 example_selection (setLoading True example_world)))"
    unfolding es by simp
  note t = confirmPartialOrder_not_atomic
             [of 7 example_selection example_world "hd example_selection" "''o1''" "Some ''revisado''"]
  from t failed
  have r: "fst (confirmPartialOrder 7 ''o1'' example_selection (Some ''revisado'') example_world) = Inr False"
    and s: "sent (snd (confirmPartialOrder 7 ''o1'' example_selection (Some ''revisado'') example_world))
            = sent example_world
                @ map (\<lambda>s. UpdatePedidoItems (itemId s) (confirm_payload 7 s)) example_selection"
    and d: "database (snd (confirmPartialOrder 7 ''o1'' example_selection (Some ''revisado'') example_world))
            = fold (\<lambda>(s, e) d. if e = None
                                then update_pedido_items 7 (itemId s) (confirm_payload 7 s) d
                                else d)
                (zip example_selection
                   (fst (updatePromises 7 example_selection (setLoading True example_world))))
                (database example_world)"
    and k: "map pedidos_notas_operativas (pedidos (database
               (snd (confirmPartialOrder 7 ''o1'' example_selection (Some ''revisado'') example_world))))
            = map pedidos_notas_operativas (pedidos (database example_world))"
    by blast+
  from s have s': "length (sent (snd (confirmPartialOrder 7 ''o1'' example_selection (Some ''revisado'')
                      example_world))) = 2"
    by (simp add: example_world_def example_selection_def)
  have db: "database (snd (confirmPartialOrder 7 ''o1'' example_selection (Some ''revisado'') example_world))
            = update_pedido_items 7 ''i2'' (confirm_payload 7 (hd example_selection)) example_db"
    unfolding d es by (simp add: example_selection_def example_world_def)
  have items: "map item_estado (pedido_items (database
        (snd (confirmPartialOrder 7 ''o1'' example_selection (Some ''revisado'') example_world))))
       = [Some ''confirmado'', Some ''confirmado'', Some ''confirmado'']"
    unfolding db
    by (simp add: example_selection_def example_db_def update_pedido_items_def
          update_order_status_trigger_def update_order_status_from_items_def
          apply_item_update_def confirm_payload_def)
  have before: "map item_estado (pedido_items (database example_world))
       = [Some ''confirmado'', Some ''pendiente'', Some ''confirmado'']"
    by (simp add: example_world_def example_db_def)
  have orders: "map pedidos_estado (pedidos (database
        (snd (confirmPartialOrder 7 ''o1'' example_selection (Some ''revisado'') example_world))))
       = [''preparacion'', ''cancelado'']"
    unfolding db
    by (simp add: example_selection_def example_db_def update_pedido_items_def
          update_order_status_trigger_def update_order_status_from_items_def
          apply_item_update_def confirm_payload_def select_count_def sql_eq_def)
  from k have nt: "map pedidos_notas_operativas (pedidos (database
        (snd (confirmPartialOrder 7 ''o1'' example_selection (Some ''revisado'') example_world))))
       = [None, None]"
    by (simp add: example_world_def example_db_def)
  from es r s' items before orders nt show ?thesis by (intro conjI)
qed


section \<open>Properties of the business dashboard\<close>

text \<open>What the statistics are computed from: the rows of the orders query, at most ten.\<close>

lemma fetch_pedidos_at_most_ten: "length (fetch_pedidos user_id table) \<le> 10"
  by (simp add: fetch_pedidos_def)

lemma ventasTotal_of_fetched:
  "ventasTotal (loadDashboardData now user_id clientes_table pedidos_table)
     = sum_list (map row_total (fetch_pedidos user_id pedidos_table))"
  by (simp add: loadDashboardData_def calculate_stats_def foldl_plus_sum_list)

lemma example_pedido_fields:
  "row_created_at (example_pedido k) = k"
  "row_comercial_id (example_pedido k) = ''u1''"
  "row_total (example_pedido k) = 1"
  "row_fecha_pedido (example_pedido k) = \<lparr>year = 2025, month = 8, day = 1, ms_of_day = 32400000\<rparr>"
  by (simp_all add: example_pedido_def)

lemma fetch_pedidos_example:
  "fetch_pedidos ''u1'' example_pedidos = map example_pedido [11, 10, 9, 8, 7, 6, 5, 4, 3, 2]"
  by (simp add: fetch_pedidos_def example_pedidos_def example_pedido_fields)

text \<open>
  Claim C5, at the eleven orders above.  All eleven belong to the user's clients, have the
  total 1 and are dated in the current month; the dashboard shows total sales of 10, since
  the query stops at ten rows, and no order of the month, since the start of the month
  carries the current time of day, 10:00, and the orders are dated 09:00 on the first.
\<close>

theorem loadDashboardData_sums_ten_orders_only:
  "ventasTotal (loadDashboardData example_now ''u1'' [] example_pedidos) = 10
   \<and> sum_list (map row_total (filter (\<lambda>p. row_comercial_id p = ''u1'') example_pedidos)) = 11
   \<and> pedidosMes (loadDashboardData example_now ''u1'' [] example_pedidos) = 0
   \<and> length (filter (\<lambda>p. row_comercial_id p = ''u1''
                         \<and> date_ge (row_fecha_pedido p)
                              \<lparr>year = 2025, month = 8, day = 1, ms_of_day = 0\<rparr>)
               example_pedidos) = 11"
proof -
  have a: "ventasTotal (loadDashboardData example_now ''u1'' [] example_pedidos) = 10"
    by (simp add: loadDashboardData_def calculate_stats_def fetch_pedidos_example
          example_pedido_fields)
  have b: "sum_list (map row_total (filter (\<lambda>p. row_comercial_id p = ''u1'') example_pedidos)) = 11"
    by (simp add: example_pedidos_def example_pedido_fields)
  have c: "pedidosMes (loadDashboardData example_now ''u1'' [] example_pedidos) = 0"
    by (simp add: loadDashboardData_def calculate_stats_def fetch_pedidos_example
          example_pedido_fields example_now_def inicioMes_of_def date_ge_def)
  have d: "length (filter (\<lambda>p. row_comercial_id p = ''u1''
                         \<and> date_ge (row_fecha_pedido p)
                              \<lparr>year = 2025, month = 8, day = 1, ms_of_day = 0\<rparr>)
               example_pedidos) = 11"
    by (simp add: example_pedidos_def example_pedido_fields date_ge_def)
  from a b c d show ?thesis by (intro conjI)
qed

end
